theory Spec2Isabelle
  imports Main "HOL-Library.Sublist"
begin

section \<open>Data model\<close>

text \<open>
  Instants are milliseconds since the epoch. The source stores them as the ISO-8601
  rendering of a valid \<^verbatim>\<open>Date\<close> (\<^verbatim>\<open>toISOString\<close>), which is one-to-one on valid dates,
  so an instant stands for its rendering.
\<close>

type_synonym instant = int

text \<open>
  A JavaScript string as the list of its UTF-16 code units. The schedule value is kept in
  this form because \<^verbatim>\<open>parseInt\<close> reads it unit by unit. The other strings of the model are
  only compared, tested for emptiness and concatenated, and are kept as HOL strings;
  \<open>js\<close> gives the code units of such a string.
\<close>

type_synonym jsstring = "nat list"

definition js :: "string \<Rightarrow> jsstring" where
  "js s = map of_char s"

record RegisteredGroup =
  name :: string
  folder :: string
  trigger :: string
  added_at :: instant
  containerConfig :: "string option"
  requiresTrigger :: "bool option"

text \<open>
  The record \<^verbatim>\<open>createTask\<close> receives. Its \<^verbatim>\<open>group_folder\<close> is the \<^verbatim>\<open>folder\<close> property read
  from the target's registry entry, which is \<^verbatim>\<open>undefined\<close> (\<open>None\<close>) when the lookup found
  an inherited property of the registry object instead of a registration.
\<close>

record Task =
  task_id :: string
  group_folder :: "string option"
  chat_jid :: string
  prompt :: string
  schedule_type :: string
  schedule_value :: jsstring
  context_mode :: string
  next_run :: "instant option"
  status :: string
  created_at :: instant

text \<open>
  The parsed request, at the type \<^verbatim>\<open>processTaskIpc\<close> declares for \<^verbatim>\<open>data\<close>: every field
  is an optional string (two are an optional boolean and an optional opaque value), and
  \<^verbatim>\<open>undefined\<close> is \<open>None\<close>. \<open>data_text\<close> is the field the messages channel reads;
  \<open>data_event_id\<close>, \<open>data_summary\<close>, \<open>data_start\<close> and \<open>data_end\<close> are the fields the
  calendar handlers test before they call the API.
\<close>

record ipc_data =
  data_type :: "string option"
  data_taskId :: "string option"
  data_prompt :: "string option"
  data_schedule_type :: "string option"
  data_schedule_value :: "jsstring option"
  data_context_mode :: "string option"
  data_groupFolder :: "string option"
  data_chatJid :: "string option"
  data_targetJid :: "string option"
  data_jid :: "string option"
  data_name :: "string option"
  data_folder :: "string option"
  data_trigger :: "string option"
  data_requiresTrigger :: "bool option"
  data_containerConfig :: "string option"
  data_text :: "string option"
  data_event_id :: "string option"
  data_summary :: "string option"
  data_start :: "string option"
  data_end :: "string option"

text \<open>
  What \<^verbatim>\<open>JSON.parse\<close> returns on a request file: \<^verbatim>\<open>null\<close> or an object. A file whose
  text does not parse has content \<open>None\<close>.
\<close>

datatype json = JsonNull | JsonObject ipc_data

type_synonym content = "json option"

datatype level = Debug | Info | Warn | Error

datatype completion = Normal | Thrown

type_synonym path = "string list"

datatype fs_op = Unlink path | Mkdir path | Rename path path

datatype api_request =
    GmailSend
  | CalendarList
  | CalendarGet string
  | CalendarInsert string
  | CalendarUpdate string
  | CalendarDelete string

text \<open>
  The state the watcher acts on: the Task Store, the group registry, and the record of
  every outward call, whether it then succeeds or fails (calls of the send function,
  snapshots written, metadata resyncs, Google API requests, log lines). \<open>fs_trace\<close> holds
  the filesystem operations that took effect, with paths relative to the IPC base
  directory; an operation that failed is not in it.
\<close>

record world =
  tasks :: "string \<rightharpoonup> Task"
  registeredGroups :: "(string \<times> RegisteredGroup) list"
  sent :: "(string \<times> string) list"
  snapshots :: "(string \<times> bool \<times> string list \<times> string set) list"
  sync_calls :: "bool list"
  api_calls :: "api_request list"
  fs_trace :: "fs_op list"
  logged :: "(level \<times> string) list"

text \<open>
  What the code reads from outside itself: the constants of \<^verbatim>\<open>config.js\<close>, the clock
  (\<^verbatim>\<open>Date.now()\<close>, not negative in any run) and the random suffix, the two library parsers
  (\<^verbatim>\<open>CronExpressionParser\<close> and the \<^verbatim>\<open>Date\<close> constructor; \<open>None\<close> is a throw resp. an
  invalid date), whether each awaited external call fails, and whether each filesystem
  call on a path fails.
\<close>

record env =
  MAIN_GROUP_FOLDER :: string
  ASSISTANT_NAME :: string
  now :: instant
  random_suffix :: string
  cronNext :: "jsstring \<Rightarrow> instant option"
  dateParse :: "jsstring \<Rightarrow> instant option"
  sendMessageFails :: "string \<Rightarrow> string \<Rightarrow> bool"
  syncGroupMetadataFails :: bool
  availableGroups :: "string list"
  importFails :: bool
  oauthConfigured :: bool
  credentialsFail :: bool
  apiFails :: "api_request \<Rightarrow> bool"
  unlinkFails :: "path \<Rightarrow> bool"
  mkdirFails :: "path \<Rightarrow> bool"
  renameFails :: "path \<Rightarrow> path \<Rightarrow> bool"

section \<open>JavaScript primitives\<close>

definition truthy :: "'a list option \<Rightarrow> bool" where
  "truthy v = (case v of None \<Rightarrow> False | Some s \<Rightarrow> s \<noteq> [])"

definition str_of :: "'a list option \<Rightarrow> 'a list" where
  "str_of v = (case v of None \<Rightarrow> [] | Some s \<Rightarrow> s)"

definition endsWith :: "string \<Rightarrow> string \<Rightarrow> bool" where
  "endsWith s suf = (length suf \<le> length s \<and> drop (length s - length suf) s = suf)"

text \<open>
  The code units \<^verbatim>\<open>parseInt\<close> trims: the white space of ECMAScript (tab, vertical tab,
  form feed, the byte order mark U+FEFF and the space separators U+0020, U+00A0, U+1680,
  U+2000 to U+200A, U+202F, U+205F, U+3000) and its line terminators (line feed,
  carriage return, U+2028, U+2029).
\<close>

definition isWhiteSpace :: "nat \<Rightarrow> bool" where
  "isWhiteSpace u =
     (u \<in> set [0x09, 0x0B, 0x0C, 0xFEFF, 0x20, 0xA0, 0x1680, 0x202F, 0x205F, 0x3000,
                0x0A, 0x0D, 0x2028, 0x2029]
      \<or> (0x2000 \<le> u \<and> u \<le> 0x200A))"

definition isDigit :: "nat \<Rightarrow> bool" where
  "isDigit u = (0x30 \<le> u \<and> u \<le> 0x39)"

definition digitVal :: "nat \<Rightarrow> nat" where
  "digitVal u = u - 0x30"

definition digitsVal :: "jsstring \<Rightarrow> nat" where
  "digitsVal ds = foldl (\<lambda>acc u. 10 * acc + digitVal u) 0 ds"

text \<open>
  \<^verbatim>\<open>parseInt(s, 10)\<close>: leading white space is trimmed, one sign (\<^verbatim>\<open>-\<close> is 0x2D, \<^verbatim>\<open>+\<close> is
  0x2B) is read, then the longest run of decimal digits; what follows the digits is
  ignored; no digit at all is \<^verbatim>\<open>NaN\<close> (\<open>None\<close>). The value is kept exact: the double that
  JavaScript returns differs from it only from \<open>2 ^ 53\<close> on, where, the clock not being
  negative, \<open>validDate\<close> below fails for the exact value and for the double alike.
\<close>

definition parseInt :: "jsstring \<Rightarrow> int option" where
  "parseInt s =
     (let t = dropWhile isWhiteSpace s;
          neg = (case t of [] \<Rightarrow> False | u # _ \<Rightarrow> u = 0x2D);
          r = (case t of [] \<Rightarrow> [] | u # r \<Rightarrow> if u = 0x2D \<or> u = 0x2B then r else t);
          ds = takeWhile isDigit r
      in if ds = [] then None
         else Some (if neg then - int (digitsVal ds) else int (digitsVal ds)))"

text \<open>
  A \<^verbatim>\<open>Date\<close> holds a time value of at most 8.64e15 ms in absolute value; beyond it the
  date is invalid and \<^verbatim>\<open>toISOString\<close> throws a RangeError.
\<close>

definition validDate :: "int \<Rightarrow> bool" where
  "validDate t = (\<bar>t\<bar> \<le> 8640000000000000)"

fun show_nat :: "nat \<Rightarrow> string" where
  "show_nat n =
     (if n < 10 then [char_of (48 + n)] else show_nat (n div 10) @ [char_of (48 + n mod 10)])"

declare show_nat.simps [simp del]

definition show_int :: "int \<Rightarrow> string" where
  "show_int i = (if i < 0 then CHR ''-'' # show_nat (nat (- i)) else show_nat (nat i))"

section \<open>Collaborators\<close>

definition logmsg :: "level \<Rightarrow> string \<Rightarrow> world \<Rightarrow> world" where
  "logmsg l m st = st\<lparr>logged := logged st @ [(l, m)]\<rparr>"

text \<open>
  The Task Store of \<^verbatim>\<open>db.js\<close> and the collaborators behind \<^verbatim>\<open>IpcDeps\<close> are not among
  the sources; each is modelled from what the specification says of it.
\<close>

text \<open>
  Modelled from the spec: \<^verbatim>\<open>getTaskById\<close> of \<^verbatim>\<open>db.js\<close>. The Task Store is a persisted
  collection of Task records keyed by the task id; a missing id gives no record.
\<close>

definition getTaskById :: "string \<Rightarrow> world \<Rightarrow> Task option" where
  "getTaskById i st = tasks st i"

text \<open>
  Modelled from the spec: \<^verbatim>\<open>createTask\<close> of \<^verbatim>\<open>db.js\<close>, the create operation of the Task
  Store: the record is stored under its id.
\<close>

definition createTask :: "Task \<Rightarrow> world \<Rightarrow> world" where
  "createTask t st = st\<lparr>tasks := (tasks st)(task_id t \<mapsto> t)\<rparr>"

text \<open>
  Modelled from the spec: \<^verbatim>\<open>updateTask\<close> of \<^verbatim>\<open>db.js\<close>, the in-place mutation of the Task
  Store. The processor only ever passes a new status, so the update is that of the
  status; on a missing id nothing changes.
\<close>

definition updateTask :: "string \<Rightarrow> string \<Rightarrow> world \<Rightarrow> world" where
  "updateTask i s st =
     (case tasks st i of
        None \<Rightarrow> st
      | Some t \<Rightarrow> st\<lparr>tasks := (tasks st)(i \<mapsto> t\<lparr>status := s\<rparr>)\<rparr>)"

text \<open>
  Modelled from the spec: \<^verbatim>\<open>deleteTask\<close> of \<^verbatim>\<open>db.js\<close>: deletion removes the record
  entirely.
\<close>

definition deleteTask :: "string \<Rightarrow> world \<Rightarrow> world" where
  "deleteTask i st = st\<lparr>tasks := (tasks st)(i := None)\<rparr>"

text \<open>
  Modelled from the spec: the "upsert one" of the group registry, on the registrations
  in the order of their keys' insertion.
\<close>

fun upsert :: "'k \<Rightarrow> 'v \<Rightarrow> ('k \<times> 'v) list \<Rightarrow> ('k \<times> 'v) list" where
  "upsert k v [] = [(k, v)]"
| "upsert k v ((k', v') # r) = (if k = k' then (k, v) # r else (k', v') # upsert k v r)"

text \<open>
  Modelled from the spec: \<^verbatim>\<open>deps.registeredGroups\<close> returns the registrations as a plain
  object keyed by jid (\<^verbatim>\<open>Record<string, RegisteredGroup>\<close>). Reading \<^verbatim>\<open>registeredGroups[key]\<close>
  finds the registration of the key when it has one; otherwise, for the names that every
  object inherits from \<^verbatim>\<open>Object.prototype\<close>, it finds the inherited function or object,
  which is truthy and has no \<^verbatim>\<open>folder\<close>; otherwise it is \<^verbatim>\<open>undefined\<close>.
\<close>

datatype property = Absent | Inherited | Own RegisteredGroup

definition objectPrototypeNames :: "string list" where
  "objectPrototypeNames =
     [''constructor'', ''__defineGetter__'', ''__defineSetter__'', ''hasOwnProperty'',
      ''__lookupGetter__'', ''__lookupSetter__'', ''isPrototypeOf'',
      ''propertyIsEnumerable'', ''toString'', ''valueOf'', ''__proto__'',
      ''toLocaleString'']"

definition getProperty :: "(string \<times> RegisteredGroup) list \<Rightarrow> string \<Rightarrow> property" where
  "getProperty obj key =
     (case map_of obj key of
        Some g \<Rightarrow> Own g
      | None \<Rightarrow> if key \<in> set objectPrototypeNames then Inherited else Absent)"

text \<open>The \<^verbatim>\<open>folder\<close> property of what a lookup found.\<close>

definition folderOf :: "property \<Rightarrow> string option" where
  "folderOf p = (case p of Own g \<Rightarrow> Some (folder g) | _ \<Rightarrow> None)"

text \<open>
  Modelled from the spec: \<^verbatim>\<open>deps.registerGroup\<close>, which creates or overwrites the
  registration of a jid.
\<close>

definition registerGroup :: "string \<Rightarrow> RegisteredGroup \<Rightarrow> world \<Rightarrow> world" where
  "registerGroup j g st = st\<lparr>registeredGroups := upsert j g (registeredGroups st)\<rparr>"

text \<open>
  Modelled from the spec: \<^verbatim>\<open>deps.sendMessage\<close>, a send function \<^verbatim>\<open>(targetId, text)\<close> with
  asynchronous success or failure. The call is recorded; a failure is a throw at the
  \<^verbatim>\<open>await\<close>.
\<close>

definition sendMessage :: "env \<Rightarrow> string \<Rightarrow> string \<Rightarrow> world \<Rightarrow> completion \<times> world" where
  "sendMessage e j t st =
     (if sendMessageFails e j t then Thrown else Normal, st\<lparr>sent := sent st @ [(j, t)]\<rparr>)"

text \<open>
  Modelled from the spec: \<^verbatim>\<open>deps.syncGroupMetadata\<close>, the metadata-resync trigger
  \<^verbatim>\<open>(force)\<close>, asynchronous, which may fail.
\<close>

definition syncGroupMetadata :: "env \<Rightarrow> bool \<Rightarrow> world \<Rightarrow> completion \<times> world" where
  "syncGroupMetadata e force st =
     (if syncGroupMetadataFails e then Thrown else Normal,
      st\<lparr>sync_calls := sync_calls st @ [force]\<rparr>)"

text \<open>
  Modelled from the spec: \<^verbatim>\<open>deps.writeGroupsSnapshot\<close>, the snapshot writer
  \<^verbatim>\<open>(tenant, isMain, availableGroups, registeredIds)\<close>.
\<close>

definition writeGroupsSnapshot ::
    "string \<Rightarrow> bool \<Rightarrow> string list \<Rightarrow> string set \<Rightarrow> world \<Rightarrow> world" where
  "writeGroupsSnapshot groupFolder isMain avail registeredJids st =
     st\<lparr>snapshots := snapshots st @ [(groupFolder, isMain, avail, registeredJids)]\<rparr>"

text \<open>
  A call of the Google client: the request is recorded, and a failure is a throw inside
  the handler's \<^verbatim>\<open>try\<close>.
\<close>

definition apiCall :: "env \<Rightarrow> api_request \<Rightarrow> world \<Rightarrow> completion \<times> world" where
  "apiCall e r st =
     (if apiFails e r then Thrown else Normal, st\<lparr>api_calls := api_calls st @ [r]\<rparr>)"

section \<open>Action handlers\<close>

text \<open>
  Each handler's whole body is one \<^verbatim>\<open>try\<close> whose \<^verbatim>\<open>catch\<close> logs and returns. The
  \<open>...Body\<close> functions are the \<^verbatim>\<open>try\<close> blocks: the dynamic import, the OAuth files test,
  the required-field test, loading the credentials and building the client, the API
  call, the success log.
\<close>

definition try_catch ::
    "(world \<Rightarrow> completion \<times> world) \<Rightarrow> (world \<Rightarrow> world) \<Rightarrow> world \<Rightarrow> completion \<times> world" where
  "try_catch body handler st =
     (case body st of
        (Normal, st') \<Rightarrow> (Normal, st')
      | (Thrown, st') \<Rightarrow> (Normal, handler st'))"

definition sendGmailBody :: "env \<Rightarrow> ipc_data \<Rightarrow> string \<Rightarrow> world \<Rightarrow> completion \<times> world" where
  "sendGmailBody e data sourceGroup st =
     (if importFails e then (Thrown, st)
      else if \<not> oauthConfigured e then (Normal, logmsg Error ''Gmail OAuth not configured'' st)
      else if credentialsFail e then (Thrown, st)
      else (case apiCall e GmailSend st of
              (Thrown, st') \<Rightarrow> (Thrown, st')
            | (Normal, st') \<Rightarrow> (Normal, logmsg Info ''Gmail email sent successfully'' st')))"

definition processSendGmail :: "env \<Rightarrow> ipc_data \<Rightarrow> string \<Rightarrow> world \<Rightarrow> completion \<times> world" where
  "processSendGmail e data sourceGroup =
     try_catch (sendGmailBody e data sourceGroup) (logmsg Error ''Failed to send Gmail email'')"

definition listCalendarEventsBody ::
    "env \<Rightarrow> ipc_data \<Rightarrow> string \<Rightarrow> world \<Rightarrow> completion \<times> world" where
  "listCalendarEventsBody e data sourceGroup st =
     (if importFails e then (Thrown, st)
      else if \<not> oauthConfigured e
        then (Normal, logmsg Error ''Google Calendar OAuth not configured'' st)
      else if credentialsFail e then (Thrown, st)
      else (case apiCall e CalendarList st of
              (Thrown, st') \<Rightarrow> (Thrown, st')
            | (Normal, st') \<Rightarrow> (Normal, logmsg Info ''Calendar events listed successfully'' st')))"

definition processListCalendarEvents ::
    "env \<Rightarrow> ipc_data \<Rightarrow> string \<Rightarrow> world \<Rightarrow> completion \<times> world" where
  "processListCalendarEvents e data sourceGroup =
     try_catch (listCalendarEventsBody e data sourceGroup)
       (logmsg Error ''Failed to list calendar events'')"

definition getCalendarEventBody ::
    "env \<Rightarrow> ipc_data \<Rightarrow> string \<Rightarrow> world \<Rightarrow> completion \<times> world" where
  "getCalendarEventBody e data sourceGroup st =
     (if importFails e then (Thrown, st)
      else if \<not> oauthConfigured e
        then (Normal, logmsg Error ''Google Calendar OAuth not configured'' st)
      else if \<not> truthy (data_event_id data)
        then (Normal, logmsg Error ''Missing event_id for get_calendar_event'' st)
      else if credentialsFail e then (Thrown, st)
      else (case apiCall e (CalendarGet (str_of (data_event_id data))) st of
              (Thrown, st') \<Rightarrow> (Thrown, st')
            | (Normal, st') \<Rightarrow>
                (Normal, logmsg Info ''Calendar event retrieved successfully'' st')))"

definition processGetCalendarEvent ::
    "env \<Rightarrow> ipc_data \<Rightarrow> string \<Rightarrow> world \<Rightarrow> completion \<times> world" where
  "processGetCalendarEvent e data sourceGroup =
     try_catch (getCalendarEventBody e data sourceGroup)
       (logmsg Error ''Failed to get calendar event'')"

definition createCalendarEventBody ::
    "env \<Rightarrow> ipc_data \<Rightarrow> string \<Rightarrow> world \<Rightarrow> completion \<times> world" where
  "createCalendarEventBody e data sourceGroup st =
     (if importFails e then (Thrown, st)
      else if \<not> oauthConfigured e
        then (Normal, logmsg Error ''Google Calendar OAuth not configured'' st)
      else if \<not> truthy (data_summary data) \<or> \<not> truthy (data_start data)
              \<or> \<not> truthy (data_end data)
        then (Normal,
              logmsg Error
                ''Missing required fields for create_calendar_event: summary, start, end'' st)
      else if credentialsFail e then (Thrown, st)
      else (case apiCall e (CalendarInsert (str_of (data_summary data))) st of
              (Thrown, st') \<Rightarrow> (Thrown, st')
            | (Normal, st') \<Rightarrow>
                (Normal, logmsg Info ''Calendar event created successfully'' st')))"

definition processCreateCalendarEvent ::
    "env \<Rightarrow> ipc_data \<Rightarrow> string \<Rightarrow> world \<Rightarrow> completion \<times> world" where
  "processCreateCalendarEvent e data sourceGroup =
     try_catch (createCalendarEventBody e data sourceGroup)
       (logmsg Error ''Failed to create calendar event'')"

definition updateCalendarEventBody ::
    "env \<Rightarrow> ipc_data \<Rightarrow> string \<Rightarrow> world \<Rightarrow> completion \<times> world" where
  "updateCalendarEventBody e data sourceGroup st =
     (if importFails e then (Thrown, st)
      else if \<not> oauthConfigured e
        then (Normal, logmsg Error ''Google Calendar OAuth not configured'' st)
      else if \<not> truthy (data_event_id data)
        then (Normal, logmsg Error ''Missing event_id for update_calendar_event'' st)
      else if credentialsFail e then (Thrown, st)
      else (case apiCall e (CalendarGet (str_of (data_event_id data))) st of
              (Thrown, st') \<Rightarrow> (Thrown, st')
            | (Normal, st') \<Rightarrow>
                (case apiCall e (CalendarUpdate (str_of (data_event_id data))) st' of
                   (Thrown, st'') \<Rightarrow> (Thrown, st'')
                 | (Normal, st'') \<Rightarrow>
                     (Normal, logmsg Info ''Calendar event updated successfully'' st''))))"

definition processUpdateCalendarEvent ::
    "env \<Rightarrow> ipc_data \<Rightarrow> string \<Rightarrow> world \<Rightarrow> completion \<times> world" where
  "processUpdateCalendarEvent e data sourceGroup =
     try_catch (updateCalendarEventBody e data sourceGroup)
       (logmsg Error ''Failed to update calendar event'')"

definition deleteCalendarEventBody ::
    "env \<Rightarrow> ipc_data \<Rightarrow> string \<Rightarrow> world \<Rightarrow> completion \<times> world" where
  "deleteCalendarEventBody e data sourceGroup st =
     (if importFails e then (Thrown, st)
      else if \<not> oauthConfigured e
        then (Normal, logmsg Error ''Google Calendar OAuth not configured'' st)
      else if \<not> truthy (data_event_id data)
        then (Normal, logmsg Error ''Missing event_id for delete_calendar_event'' st)
      else if credentialsFail e then (Thrown, st)
      else (case apiCall e (CalendarDelete (str_of (data_event_id data))) st of
              (Thrown, st') \<Rightarrow> (Thrown, st')
            | (Normal, st') \<Rightarrow>
                (Normal, logmsg Info ''Calendar event deleted successfully'' st')))"

definition processDeleteCalendarEvent ::
    "env \<Rightarrow> ipc_data \<Rightarrow> string \<Rightarrow> world \<Rightarrow> completion \<times> world" where
  "processDeleteCalendarEvent e data sourceGroup =
     try_catch (deleteCalendarEventBody e data sourceGroup)
       (logmsg Error ''Failed to delete calendar event'')"

section \<open>The task request processor\<close>

text \<open>
  The schedule computation of \<^verbatim>\<open>schedule_task\<close> (the \<^verbatim>\<open>if\<close> chain on \<^verbatim>\<open>scheduleType\<close>):
  a rejection is a warning and a \<^verbatim>\<open>break\<close>, \<open>RangeError\<close> is the throw of
  \<^verbatim>\<open>toISOString\<close> on an invalid date, and \<open>NextRun\<close> carries the value \<^verbatim>\<open>nextRun\<close> has when
  the chain is left, which is still \<^verbatim>\<open>null\<close> when no branch was taken.
\<close>

datatype schedule = Rejected string | RangeError | NextRun "instant option"

definition nextRunOf :: "env \<Rightarrow> string \<Rightarrow> jsstring \<Rightarrow> schedule" where
  "nextRunOf e scheduleType value =
     (if scheduleType = ''cron'' then
        (case cronNext e value of
           None \<Rightarrow> Rejected ''Invalid cron expression''
         | Some t \<Rightarrow> NextRun (Some t))
      else if scheduleType = ''interval'' then
        (case parseInt value of
           None \<Rightarrow> Rejected ''Invalid interval''
         | Some ms \<Rightarrow>
             if ms \<le> 0 then Rejected ''Invalid interval''
             else if validDate (now e + ms) then NextRun (Some (now e + ms))
             else RangeError)
      else if scheduleType = ''once'' then
        (case dateParse e value of
           None \<Rightarrow> Rejected ''Invalid timestamp''
         | Some t \<Rightarrow> NextRun (Some t))
      else NextRun None)"

definition newTaskId :: "env \<Rightarrow> string" where
  "newTaskId e = ''task-'' @ show_int (now e) @ ''-'' @ random_suffix e"

definition contextModeOf :: "string option \<Rightarrow> string" where
  "contextModeOf m = (if m = Some ''group'' \<or> m = Some ''isolated'' then str_of m else ''isolated'')"

definition schedule_task ::
    "env \<Rightarrow> ipc_data \<Rightarrow> string \<Rightarrow> bool \<Rightarrow> world \<Rightarrow> completion \<times> world" where
  "schedule_task e data sourceGroup isMain st =
     (if truthy (data_prompt data) \<and> truthy (data_schedule_type data)
         \<and> truthy (data_schedule_value data) \<and> truthy (data_targetJid data) then
        (let targetJid = str_of (data_targetJid data);
             targetGroupEntry = getProperty (registeredGroups st) targetJid in
         if targetGroupEntry = Absent then
           (Normal, logmsg Warn ''Cannot schedule task: target group not registered'' st)
         else
             (let targetFolder = folderOf targetGroupEntry in
              if \<not> isMain \<and> targetFolder \<noteq> Some sourceGroup then
                (Normal, logmsg Warn ''Unauthorized schedule_task attempt blocked'' st)
              else
                (case nextRunOf e (str_of (data_schedule_type data))
                        (str_of (data_schedule_value data)) of
                   Rejected msg \<Rightarrow> (Normal, logmsg Warn msg st)
                 | RangeError \<Rightarrow> (Thrown, st)
                 | NextRun nextRun \<Rightarrow>
                     (Normal,
                      logmsg Info ''Task created via IPC''
                        (createTask
                           \<lparr>task_id = newTaskId e,
                            group_folder = targetFolder,
                            chat_jid = targetJid,
                            prompt = str_of (data_prompt data),
                            schedule_type = str_of (data_schedule_type data),
                            schedule_value = str_of (data_schedule_value data),
                            context_mode = contextModeOf (data_context_mode data),
                            next_run = nextRun,
                            status = ''active'',
                            created_at = now e\<rparr> st)))))
      else (Normal, st))"

definition pause_task ::
    "ipc_data \<Rightarrow> string \<Rightarrow> bool \<Rightarrow> world \<Rightarrow> completion \<times> world" where
  "pause_task data sourceGroup isMain st =
     (if truthy (data_taskId data) then
        (case getTaskById (str_of (data_taskId data)) st of
           Some task \<Rightarrow>
             if isMain \<or> group_folder task = Some sourceGroup then
               (Normal,
                logmsg Info ''Task paused via IPC''
                  (updateTask (str_of (data_taskId data)) ''paused'' st))
             else (Normal, logmsg Warn ''Unauthorized task pause attempt'' st)
         | None \<Rightarrow> (Normal, logmsg Warn ''Unauthorized task pause attempt'' st))
      else (Normal, st))"

definition resume_task ::
    "ipc_data \<Rightarrow> string \<Rightarrow> bool \<Rightarrow> world \<Rightarrow> completion \<times> world" where
  "resume_task data sourceGroup isMain st =
     (if truthy (data_taskId data) then
        (case getTaskById (str_of (data_taskId data)) st of
           Some task \<Rightarrow>
             if isMain \<or> group_folder task = Some sourceGroup then
               (Normal,
                logmsg Info ''Task resumed via IPC''
                  (updateTask (str_of (data_taskId data)) ''active'' st))
             else (Normal, logmsg Warn ''Unauthorized task resume attempt'' st)
         | None \<Rightarrow> (Normal, logmsg Warn ''Unauthorized task resume attempt'' st))
      else (Normal, st))"

definition cancel_task ::
    "ipc_data \<Rightarrow> string \<Rightarrow> bool \<Rightarrow> world \<Rightarrow> completion \<times> world" where
  "cancel_task data sourceGroup isMain st =
     (if truthy (data_taskId data) then
        (case getTaskById (str_of (data_taskId data)) st of
           Some task \<Rightarrow>
             if isMain \<or> group_folder task = Some sourceGroup then
               (Normal,
                logmsg Info ''Task cancelled via IPC''
                  (deleteTask (str_of (data_taskId data)) st))
             else (Normal, logmsg Warn ''Unauthorized task cancel attempt'' st)
         | None \<Rightarrow> (Normal, logmsg Warn ''Unauthorized task cancel attempt'' st))
      else (Normal, st))"

definition refresh_groups ::
    "env \<Rightarrow> string \<Rightarrow> bool \<Rightarrow> world \<Rightarrow> completion \<times> world" where
  "refresh_groups e sourceGroup isMain st =
     (if isMain then
        (case syncGroupMetadata e True
                (logmsg Info ''Group metadata refresh requested via IPC'' st) of
           (Thrown, st') \<Rightarrow> (Thrown, st')
         | (Normal, st') \<Rightarrow>
             (Normal,
              writeGroupsSnapshot sourceGroup True (availableGroups e)
                (set (map fst (registeredGroups st))) st'))
      else (Normal, logmsg Warn ''Unauthorized refresh_groups attempt blocked'' st))"

definition register_group ::
    "env \<Rightarrow> ipc_data \<Rightarrow> string \<Rightarrow> bool \<Rightarrow> world \<Rightarrow> completion \<times> world" where
  "register_group e data sourceGroup isMain st =
     (if \<not> isMain then
        (Normal, logmsg Warn ''Unauthorized register_group attempt blocked'' st)
      else if truthy (data_jid data) \<and> truthy (data_name data)
              \<and> truthy (data_folder data) \<and> truthy (data_trigger data) then
        (Normal,
         registerGroup (str_of (data_jid data))
           \<lparr>name = str_of (data_name data),
            folder = str_of (data_folder data),
            trigger = str_of (data_trigger data),
            added_at = now e,
            containerConfig = data_containerConfig data,
            requiresTrigger = data_requiresTrigger data\<rparr> st)
      else
        (Normal,
         logmsg Warn ''Invalid register_group request - missing required fields'' st))"

text \<open>
  \<^verbatim>\<open>processTaskIpc\<close>: reading \<^verbatim>\<open>data.type\<close> of \<^verbatim>\<open>null\<close> throws a TypeError; otherwise the
  \<^verbatim>\<open>switch\<close> on \<^verbatim>\<open>data.type\<close>, in the order of the source.
\<close>

definition processTaskIpc ::
    "env \<Rightarrow> json \<Rightarrow> string \<Rightarrow> bool \<Rightarrow> world \<Rightarrow> completion \<times> world" where
  "processTaskIpc e j sourceGroup isMain st =
     (case j of
        JsonNull \<Rightarrow> (Thrown, st)
      | JsonObject data \<Rightarrow>
          (if data_type data = Some ''schedule_task'' then
             schedule_task e data sourceGroup isMain st
           else if data_type data = Some ''pause_task'' then
             pause_task data sourceGroup isMain st
           else if data_type data = Some ''resume_task'' then
             resume_task data sourceGroup isMain st
           else if data_type data = Some ''cancel_task'' then
             cancel_task data sourceGroup isMain st
           else if data_type data = Some ''refresh_groups'' then
             refresh_groups e sourceGroup isMain st
           else if data_type data = Some ''register_group'' then
             register_group e data sourceGroup isMain st
           else if data_type data = Some ''send_gmail'' then
             processSendGmail e data sourceGroup st
           else if data_type data = Some ''list_calendar_events'' then
             processListCalendarEvents e data sourceGroup st
           else if data_type data = Some ''get_calendar_event'' then
             processGetCalendarEvent e data sourceGroup st
           else if data_type data = Some ''create_calendar_event'' then
             processCreateCalendarEvent e data sourceGroup st
           else if data_type data = Some ''update_calendar_event'' then
             processUpdateCalendarEvent e data sourceGroup st
           else if data_type data = Some ''delete_calendar_event'' then
             processDeleteCalendarEvent e data sourceGroup st
           else (Normal, logmsg Warn ''Unknown IPC task type'' st)))"

section \<open>The watcher's poll cycle\<close>

text \<open>
  The three filesystem calls of the disposal. Each fails (throws) where the environment
  says so, and otherwise takes effect and is recorded.
\<close>

definition unlinkSync :: "env \<Rightarrow> path \<Rightarrow> world \<Rightarrow> completion \<times> world" where
  "unlinkSync e p st =
     (if unlinkFails e p then (Thrown, st)
      else (Normal, st\<lparr>fs_trace := fs_trace st @ [Unlink p]\<rparr>))"

definition mkdirSync :: "env \<Rightarrow> path \<Rightarrow> world \<Rightarrow> completion \<times> world" where
  "mkdirSync e p st =
     (if mkdirFails e p then (Thrown, st)
      else (Normal, st\<lparr>fs_trace := fs_trace st @ [Mkdir p]\<rparr>))"

definition renameSync :: "env \<Rightarrow> path \<Rightarrow> path \<Rightarrow> world \<Rightarrow> completion \<times> world" where
  "renameSync e p q st =
     (if renameFails e p q then (Thrown, st)
      else (Normal, st\<lparr>fs_trace := fs_trace st @ [Rename p q]\<rparr>))"

text \<open>
  The \<^verbatim>\<open>catch\<close> block of one file, after its log line: create the errors directory, then
  move the file into it under the tenant-prefixed name. Neither call is guarded, so a
  failure of either leaves the \<^verbatim>\<open>catch\<close> block as a throw.
\<close>

definition quarantine :: "env \<Rightarrow> string \<Rightarrow> string \<Rightarrow> string \<Rightarrow> world \<Rightarrow> completion \<times> world" where
  "quarantine e sourceGroup channel file st =
     (case mkdirSync e [''errors''] st of
        (Thrown, st') \<Rightarrow> (Thrown, st')
      | (Normal, st') \<Rightarrow>
          renameSync e [sourceGroup, channel, file]
            [''errors'', sourceGroup @ ''-'' @ file] st')"

text \<open>
  \<^verbatim>\<open>targetGroup && targetGroup.folder === sourceGroup\<close> on what the lookup of the chat jid
  found.
\<close>

definition owns :: "property \<Rightarrow> string \<Rightarrow> bool" where
  "owns targetGroup sourceGroup =
     (targetGroup \<noteq> Absent \<and> folderOf targetGroup = Some sourceGroup)"

text \<open>The \<^verbatim>\<open>try\<close> block of one messages-channel file, up to and including the unlink.\<close>

definition messageBody ::
    "env \<Rightarrow> (string \<times> RegisteredGroup) list \<Rightarrow> string \<Rightarrow> bool \<Rightarrow> string \<Rightarrow> content
       \<Rightarrow> world \<Rightarrow> completion \<times> world" where
  "messageBody e registered sourceGroup isMain file c st =
     (case c of
        None \<Rightarrow> (Thrown, st)
      | Some JsonNull \<Rightarrow> (Thrown, st)
      | Some (JsonObject data) \<Rightarrow>
          (if data_type data = Some ''message'' \<and> truthy (data_chatJid data)
              \<and> truthy (data_text data) then
             (let targetGroup = getProperty registered (str_of (data_chatJid data)) in
              if isMain \<or> owns targetGroup sourceGroup then
                (case sendMessage e (str_of (data_chatJid data))
                        (ASSISTANT_NAME e @ '': '' @ str_of (data_text data)) st of
                   (Thrown, st') \<Rightarrow> (Thrown, st')
                 | (Normal, st') \<Rightarrow>
                     unlinkSync e [sourceGroup, ''messages'', file]
                       (logmsg Info ''IPC message sent'' st'))
              else
                unlinkSync e [sourceGroup, ''messages'', file]
                  (logmsg Warn ''Unauthorized IPC message attempt blocked'' st))
           else unlinkSync e [sourceGroup, ''messages'', file] st))"

text \<open>
  One iteration of the loop over the message files: the \<^verbatim>\<open>try\<close> block and, when it
  throws, the \<^verbatim>\<open>catch\<close> block. The iteration itself throws when the \<^verbatim>\<open>catch\<close> block does.
\<close>

definition processMessageFile ::
    "env \<Rightarrow> (string \<times> RegisteredGroup) list \<Rightarrow> string \<Rightarrow> bool \<Rightarrow> string \<times> content
       \<Rightarrow> world \<Rightarrow> completion \<times> world" where
  "processMessageFile e registered sourceGroup isMain fc st =
     (case messageBody e registered sourceGroup isMain (fst fc) (snd fc) st of
        (Normal, st') \<Rightarrow> (Normal, st')
      | (Thrown, st') \<Rightarrow>
          quarantine e sourceGroup ''messages'' (fst fc)
            (logmsg Error ''Error processing IPC message'' st'))"

text \<open>The \<^verbatim>\<open>try\<close> block of one tasks-channel file.\<close>

definition taskBody ::
    "env \<Rightarrow> string \<Rightarrow> bool \<Rightarrow> string \<Rightarrow> content \<Rightarrow> world \<Rightarrow> completion \<times> world" where
  "taskBody e sourceGroup isMain file c st =
     (case c of
        None \<Rightarrow> (Thrown, st)
      | Some j \<Rightarrow>
          (case processTaskIpc e j sourceGroup isMain st of
             (Thrown, st') \<Rightarrow> (Thrown, st')
           | (Normal, st') \<Rightarrow> unlinkSync e [sourceGroup, ''tasks'', file] st'))"

definition processTaskFile ::
    "env \<Rightarrow> string \<Rightarrow> bool \<Rightarrow> string \<times> content \<Rightarrow> world \<Rightarrow> completion \<times> world" where
  "processTaskFile e sourceGroup isMain fc st =
     (case taskBody e sourceGroup isMain (fst fc) (snd fc) st of
        (Normal, st') \<Rightarrow> (Normal, st')
      | (Thrown, st') \<Rightarrow>
          quarantine e sourceGroup ''tasks'' (fst fc)
            (logmsg Error ''Error processing IPC task'' st'))"

text \<open>
  A directory as the cycle finds it: absent (\<^verbatim>\<open>existsSync\<close> is false), not listable
  (\<^verbatim>\<open>readdirSync\<close> throws), or a listing of names with the content of each file (\<open>None\<close>
  for a file that cannot be read or does not parse).
\<close>

datatype 'a dir = Missing | Unreadable | Listing 'a

record mailbox =
  messagesDir :: "(string \<times> content) list dir"
  tasksDir :: "(string \<times> content) list dir"


definition jsonFiles :: "(string \<times> content) list \<Rightarrow> (string \<times> content) list" where
  "jsonFiles files = filter (\<lambda>fc. endsWith (fst fc) ''.json'') files"

text \<open>
  The \<^verbatim>\<open>for\<close> loop over the message files of one channel: a throw that leaves an
  iteration leaves the loop, and the files after it are not processed.
\<close>

fun processMessageFiles ::
    "env \<Rightarrow> (string \<times> RegisteredGroup) list \<Rightarrow> string \<Rightarrow> bool \<Rightarrow> (string \<times> content) list
       \<Rightarrow> world \<Rightarrow> completion \<times> world" where
  "processMessageFiles e registered sourceGroup isMain [] st = (Normal, st)"
| "processMessageFiles e registered sourceGroup isMain (fc # fcs) st =
     (case processMessageFile e registered sourceGroup isMain fc st of
        (Thrown, st') \<Rightarrow> (Thrown, st')
      | (Normal, st') \<Rightarrow> processMessageFiles e registered sourceGroup isMain fcs st')"

fun processTaskFiles ::
    "env \<Rightarrow> string \<Rightarrow> bool \<Rightarrow> (string \<times> content) list \<Rightarrow> world \<Rightarrow> completion \<times> world" where
  "processTaskFiles e sourceGroup isMain [] st = (Normal, st)"
| "processTaskFiles e sourceGroup isMain (fc # fcs) st =
     (case processTaskFile e sourceGroup isMain fc st of
        (Thrown, st') \<Rightarrow> (Thrown, st')
      | (Normal, st') \<Rightarrow> processTaskFiles e sourceGroup isMain fcs st')"

text \<open>
  The channel-level \<^verbatim>\<open>try\<close> around each loop: a directory that cannot be listed, or a
  throw that left the loop, is logged, and the cycle goes on.
\<close>

definition processMessages ::
    "env \<Rightarrow> (string \<times> RegisteredGroup) list \<Rightarrow> string \<Rightarrow> bool \<Rightarrow> (string \<times> content) list dir
       \<Rightarrow> world \<Rightarrow> world" where
  "processMessages e registered sourceGroup isMain d st =
     (case d of
        Missing \<Rightarrow> st
      | Unreadable \<Rightarrow> logmsg Error ''Error reading IPC messages directory'' st
      | Listing files \<Rightarrow>
          (case processMessageFiles e registered sourceGroup isMain (jsonFiles files) st of
             (Normal, st') \<Rightarrow> st'
           | (Thrown, st') \<Rightarrow> logmsg Error ''Error reading IPC messages directory'' st'))"

definition processTasks ::
    "env \<Rightarrow> string \<Rightarrow> bool \<Rightarrow> (string \<times> content) list dir \<Rightarrow> world \<Rightarrow> world" where
  "processTasks e sourceGroup isMain d st =
     (case d of
        Missing \<Rightarrow> st
      | Unreadable \<Rightarrow> logmsg Error ''Error reading IPC tasks directory'' st
      | Listing files \<Rightarrow>
          (case processTaskFiles e sourceGroup isMain (jsonFiles files) st of
             (Normal, st') \<Rightarrow> st'
           | (Thrown, st') \<Rightarrow> logmsg Error ''Error reading IPC tasks directory'' st'))"

text \<open>
  The body of the loop over \<^verbatim>\<open>groupFolders\<close>: identity is the directory name, privilege is
  its equality with \<^verbatim>\<open>MAIN_GROUP_FOLDER\<close>; messages first, then tasks.
\<close>

definition processGroup ::
    "env \<Rightarrow> (string \<times> RegisteredGroup) list \<Rightarrow> string \<Rightarrow> mailbox \<Rightarrow> world \<Rightarrow> world" where
  "processGroup e registered sourceGroup mb st =
     (let isMain = (sourceGroup = MAIN_GROUP_FOLDER e) in
      processTasks e sourceGroup isMain (tasksDir mb)
        (processMessages e registered sourceGroup isMain (messagesDir mb) st))"



section \<open>Disposal of request files\<close>











section \<open>Outcome of an action handler\<close>



section \<open>Example inputs\<close>

text \<open>
  A configuration, a state and an empty payload on which the theorems below are
  instantiated: two tenants \<open>alpha\<close> and \<open>beta\<close> beside the main tenant, one chat
  registered to each, and one task owned by \<open>beta\<close>.
\<close>

definition example_env :: env where
  "example_env =
     \<lparr>MAIN_GROUP_FOLDER = ''main'',
      ASSISTANT_NAME = ''Andy'',
      now = 1700000000000,
      random_suffix = ''k3x9qz'',
      cronNext = (\<lambda>s. if s = js ''0 9 * * *'' then Some 1700038800000 else None),
      dateParse =
        (\<lambda>s. if s = js ''2020-01-01T00:00:00.000Z'' then Some 1577836800000 else None),
      sendMessageFails = (\<lambda>j t. False),
      syncGroupMetadataFails = False,
      availableGroups = [],
      importFails = False,
      oauthConfigured = True,
      credentialsFail = False,
      apiFails = (\<lambda>r. True),
      unlinkFails = (\<lambda>p. False),
      mkdirFails = (\<lambda>p. False),
      renameFails = (\<lambda>p q. False)\<rparr>"


definition example_groups :: "(string \<times> RegisteredGroup) list" where
  "example_groups =
     [(''g1'', \<lparr>name = ''Alpha'', folder = ''alpha'', trigger = ''@Andy'', added_at = 0,
               containerConfig = None, requiresTrigger = None\<rparr>),
      (''g2'', \<lparr>name = ''Beta'', folder = ''beta'', trigger = ''@Andy'', added_at = 0,
               containerConfig = None, requiresTrigger = None\<rparr>)]"

definition example_task :: Task where
  "example_task =
     \<lparr>task_id = ''t1'', group_folder = Some ''beta'', chat_jid = ''g2'', prompt = ''p'',
      schedule_type = ''interval'', schedule_value = js ''60000'', context_mode = ''isolated'',
      next_run = Some 1700000060000, status = ''active'', created_at = 1700000000000\<rparr>"

definition example_world :: world where
  "example_world =
     \<lparr>tasks = [''t1'' \<mapsto> example_task],
      registeredGroups = example_groups,
      sent = [], snapshots = [], sync_calls = [], api_calls = [], fs_trace = [],
      logged = []\<rparr>"

definition no_fields :: ipc_data where
  "no_fields =
     \<lparr>data_type = None, data_taskId = None, data_prompt = None, data_schedule_type = None,
      data_schedule_value = None, data_context_mode = None, data_groupFolder = None,
      data_chatJid = None, data_targetJid = None, data_jid = None, data_name = None,
      data_folder = None, data_trigger = None, data_requiresTrigger = None,
      data_containerConfig = None, data_text = None, data_event_id = None,
      data_summary = None, data_start = None, data_end = None\<rparr>"

definition schedule_request :: "string \<Rightarrow> string \<Rightarrow> string \<Rightarrow> ipc_data" where
  "schedule_request ty v j =
     no_fields\<lparr>data_type := Some ''schedule_task'', data_prompt := Some ''p'',
               data_schedule_type := Some ty, data_schedule_value := Some (js v),
               data_targetJid := Some j\<rparr>"

definition message_request :: "string \<Rightarrow> string \<Rightarrow> ipc_data" where
  "message_request j t =
     no_fields\<lparr>data_type := Some ''message'', data_chatJid := Some j, data_text := Some t\<rparr>"



text \<open>A tenant mailbox that holds one parsed request, in its messages or its tasks channel.\<close>

definition oneMessage :: "string \<Rightarrow> ipc_data \<Rightarrow> mailbox" where
  "oneMessage fname d =
     \<lparr>messagesDir = Listing [(fname, Some (JsonObject d))], tasksDir = Missing\<rparr>"

definition oneTask :: "string \<Rightarrow> ipc_data \<Rightarrow> mailbox" where
  "oneTask fname d =
     \<lparr>messagesDir = Missing, tasksDir = Listing [(fname, Some (JsonObject d))]\<rparr>"

definition register_request :: "string \<Rightarrow> string \<Rightarrow> ipc_data" where
  "register_request j f =
     no_fields\<lparr>data_type := Some ''register_group'', data_jid := Some j,
               data_name := Some ''Gamma'', data_folder := Some f,
               data_trigger := Some ''@Andy''\<rparr>"

section \<open>The specification's wording\<close>

text \<open>
  The specification rejects a "non-numeric" interval value. This predicate follows those
  words, not the code: a numeric value is an optional sign followed by one or more
  decimal digits and nothing else.
\<close>

definition spec_numeric :: "jsstring \<Rightarrow> bool" where
  "spec_numeric s =
     (let r = (case s of [] \<Rightarrow> [] | u # r \<Rightarrow> if u = 0x2D \<or> u = 0x2B then r else s)
      in r \<noteq> [] \<and> list_all isDigit r)"

section \<open>Auxiliary facts\<close>

lemma logmsg_fields [simp]:
  "tasks (logmsg l m st) = tasks st"
  "registeredGroups (logmsg l m st) = registeredGroups st"
  "sent (logmsg l m st) = sent st"
  "snapshots (logmsg l m st) = snapshots st"
  "sync_calls (logmsg l m st) = sync_calls st"
  "api_calls (logmsg l m st) = api_calls st"
  "fs_trace (logmsg l m st) = fs_trace st"
  "logged (logmsg l m st) = logged st @ [(l, m)]"
  by (simp_all add: logmsg_def)

lemma map_of_upsert: "map_of (upsert k v xs) = (map_of xs)(k \<mapsto> v)"
  by (induction xs) (auto simp: fun_eq_iff)

lemma js_eq_Nil [simp]: "js s = [] \<longleftrightarrow> s = []"
  by (simp add: js_def)

lemma js_eq_iff [simp]: "js s = js t \<longleftrightarrow> s = t"
proof -
  have "inj (of_char :: char \<Rightarrow> nat)"
    by (rule injI) simp
  then show ?thesis
    by (simp add: js_def)
qed

lemma getProperty_Own: "map_of obj key = Some g \<Longrightarrow> getProperty obj key = Own g"
  by (simp add: getProperty_def)

lemma owns_Own: "owns (Own g) sg \<longleftrightarrow> folder g = sg"
  by (simp add: owns_def folderOf_def)

lemma owns_iff:
  "owns (getProperty obj key) sg \<longleftrightarrow> (\<exists>g. map_of obj key = Some g \<and> folder g = sg)"
  by (auto simp: owns_def folderOf_def getProperty_def split: option.splits)

text \<open>
  \<^verbatim>\<open>parseInt\<close> reads a string of decimal digits as the number it denotes; in particular
  it reads back the decimal rendering of every natural number. It skips a no-break space
  and a byte order mark as it skips a blank.
\<close>

lemma isDigit_not_sign_or_space:
  assumes "isDigit u"
  shows "\<not> isWhiteSpace u" and "u \<noteq> 0x2D" and "u \<noteq> 0x2B"
  using assms by (auto simp: isDigit_def isWhiteSpace_def)

lemma digit_char:
  assumes "k < 10"
  shows "isDigit (of_char (char_of (48 + k)))"
    and "digitVal (of_char (char_of (48 + k))) = k"
  using assms by (simp_all add: isDigit_def digitVal_def)

lemma digitsVal_snoc: "digitsVal (ds @ [u]) = 10 * digitsVal ds + digitVal u"
  by (simp add: digitsVal_def)

lemma show_nat_digits:
  "js (show_nat n) \<noteq> [] \<and> list_all isDigit (js (show_nat n))
     \<and> digitsVal (js (show_nat n)) = n"
proof (induction n rule: show_nat.induct)
  case (1 n)
  show ?case
  proof (cases "n < 10")
    case True
    then show ?thesis
      using digit_char [of n] by (simp add: show_nat.simps [of n] digitsVal_def js_def)
  next
    case False
    then show ?thesis
      using "1.IH" digit_char [of "n mod 10"]
      by (simp add: show_nat.simps [of n] digitsVal_snoc js_def)
  qed
qed

lemma parseInt_digits:
  assumes "ds \<noteq> []" and "list_all isDigit ds"
  shows "parseInt ds = Some (int (digitsVal ds))"
proof -
  obtain u r where ds: "ds = u # r" using assms(1) by (cases ds) auto
  have u: "isDigit u" using assms(2) ds by simp
  have tw: "takeWhile isDigit ds = ds"
    using assms(2) by (simp add: list_all_iff)
  show ?thesis
    using isDigit_not_sign_or_space [OF u] tw ds
    by (simp add: parseInt_def)
qed

lemma parseInt_show_nat: "parseInt (js (show_nat n)) = Some (int n)"
  using show_nat_digits [of n] by (simp add: parseInt_digits)

lemma parseInt_leading_space:
  "isWhiteSpace u \<Longrightarrow> parseInt (u # s) = parseInt s"
  by (simp add: parseInt_def)

lemma parseInt_examples:
  "parseInt (js ''60000'') = Some 60000"
  "parseInt (js ''5abc'') = Some 5"
  "parseInt (js ''abc'') = None"
  "parseInt (js ''0'') = Some 0"
  "parseInt (js ''-5'') = Some (- 5)"
  "parseInt (0xA0 # js ''5'') = Some 5"
  "parseInt (0xFEFF # 0x2028 # js '' 5'') = Some 5"
  by (simp_all add: parseInt_def isWhiteSpace_def isDigit_def digitsVal_def digitVal_def js_def)

section \<open>Group registration\<close>

lemma processTaskIpc_register:
  "data_type data = Some ''register_group'' \<Longrightarrow>
   processTaskIpc e (JsonObject data) sourceGroup isMain st =
     register_group e data sourceGroup isMain st"
  by (simp add: processTaskIpc_def)

text \<open>
  C9: a \<^verbatim>\<open>register_group\<close> request from a non-main tenant is always denied: it returns
  normally and the only change is the warning, whatever fields it carries. From the main
  tenant, the registry gets the entry for the given jid (created or overwritten, every
  other jid as before) exactly when \<^verbatim>\<open>jid\<close>, \<^verbatim>\<open>name\<close>, \<^verbatim>\<open>folder\<close> and \<^verbatim>\<open>trigger\<close> are
  all present (non-empty); otherwise only a warning is logged.
\<close>

theorem register_group_rule:
  assumes ty: "data_type data = Some ''register_group''"
  shows "processTaskIpc e (JsonObject data) sourceGroup False st =
           (Normal, logmsg Warn ''Unauthorized register_group attempt blocked'' st)
       \<and> (\<exists>st'. processTaskIpc e (JsonObject data) sourceGroup True st = (Normal, st')
             \<and> tasks st' = tasks st
             \<and> (if truthy (data_jid data) \<and> truthy (data_name data)
                    \<and> truthy (data_folder data) \<and> truthy (data_trigger data)
                 then map_of (registeredGroups st') =
                        (map_of (registeredGroups st))
                          (str_of (data_jid data) \<mapsto>
                             \<lparr>name = str_of (data_name data),
                              folder = str_of (data_folder data),
                              trigger = str_of (data_trigger data),
                              added_at = now e,
                              containerConfig = data_containerConfig data,
                              requiresTrigger = data_requiresTrigger data\<rparr>)
                 else st' = logmsg Warn
                        ''Invalid register_group request - missing required fields'' st))"
  unfolding processTaskIpc_register [OF ty]
  by (simp add: register_group_def registerGroup_def map_of_upsert)


theorem register_group_rule_witness:
  "data_type (no_fields\<lparr>data_type := Some ''register_group'', data_jid := Some ''g3'',
       data_name := Some ''Gamma'', data_folder := Some ''gamma'',
       data_trigger := Some ''@Andy''\<rparr>) = Some ''register_group''
   \<and> map_of (registeredGroups (snd (processTaskIpc example_env
         (JsonObject (no_fields\<lparr>data_type := Some ''register_group'', data_jid := Some ''g3'',
            data_name := Some ''Gamma'', data_folder := Some ''gamma'',
            data_trigger := Some ''@Andy''\<rparr>)) ''alpha'' False example_world))) ''g3'' = None
   \<and> map_option folder (map_of (registeredGroups (snd (processTaskIpc example_env
         (JsonObject (no_fields\<lparr>data_type := Some ''register_group'', data_jid := Some ''g3'',
            data_name := Some ''Gamma'', data_folder := Some ''gamma'',
            data_trigger := Some ''@Andy''\<rparr>)) ''main'' True example_world))) ''g3'')
       = Some ''gamma''"
  using register_group_rule [of "no_fields\<lparr>data_type := Some ''register_group'',
       data_jid := Some ''g3'', data_name := Some ''Gamma'', data_folder := Some ''gamma'',
       data_trigger := Some ''@Andy''\<rparr>" example_env "''alpha''" example_world]
    register_group_rule [of "no_fields\<lparr>data_type := Some ''register_group'',
       data_jid := Some ''g3'', data_name := Some ''Gamma'', data_folder := Some ''gamma'',
       data_trigger := Some ''@Andy''\<rparr>" example_env "''main''" example_world]
  by (auto simp: no_fields_def truthy_def str_of_def example_world_def example_groups_def)

section \<open>Pause, resume, cancel\<close>

lemma pause_task_result:
  "truthy (data_taskId data) \<Longrightarrow>
   pause_task data sourceGroup isMain st =
     (Normal,
      case tasks st (str_of (data_taskId data)) of
        None \<Rightarrow> logmsg Warn ''Unauthorized task pause attempt'' st
      | Some t \<Rightarrow>
          if isMain \<or> group_folder t = Some sourceGroup
          then logmsg Info ''Task paused via IPC''
                 (st\<lparr>tasks := (tasks st)(str_of (data_taskId data) \<mapsto> t\<lparr>status := ''paused''\<rparr>)\<rparr>)
          else logmsg Warn ''Unauthorized task pause attempt'' st)"
  by (simp add: pause_task_def getTaskById_def updateTask_def split: option.splits)

lemma resume_task_result:
  "truthy (data_taskId data) \<Longrightarrow>
   resume_task data sourceGroup isMain st =
     (Normal,
      case tasks st (str_of (data_taskId data)) of
        None \<Rightarrow> logmsg Warn ''Unauthorized task resume attempt'' st
      | Some t \<Rightarrow>
          if isMain \<or> group_folder t = Some sourceGroup
          then logmsg Info ''Task resumed via IPC''
                 (st\<lparr>tasks := (tasks st)(str_of (data_taskId data) \<mapsto> t\<lparr>status := ''active''\<rparr>)\<rparr>)
          else logmsg Warn ''Unauthorized task resume attempt'' st)"
  by (simp add: resume_task_def getTaskById_def updateTask_def split: option.splits)

lemma cancel_task_result:
  "truthy (data_taskId data) \<Longrightarrow>
   cancel_task data sourceGroup isMain st =
     (Normal,
      case tasks st (str_of (data_taskId data)) of
        None \<Rightarrow> logmsg Warn ''Unauthorized task cancel attempt'' st
      | Some t \<Rightarrow>
          if isMain \<or> group_folder t = Some sourceGroup
          then logmsg Info ''Task cancelled via IPC''
                 (st\<lparr>tasks := (tasks st)(str_of (data_taskId data) := None)\<rparr>)
          else logmsg Warn ''Unauthorized task cancel attempt'' st)"
  by (simp add: cancel_task_def getTaskById_def deleteTask_def split: option.splits)

lemma processTaskIpc_pause:
  "data_type data = Some ''pause_task'' \<Longrightarrow>
   processTaskIpc e (JsonObject data) sourceGroup isMain st = pause_task data sourceGroup isMain st"
  by (simp add: processTaskIpc_def)

lemma processTaskIpc_resume:
  "data_type data = Some ''resume_task'' \<Longrightarrow>
   processTaskIpc e (JsonObject data) sourceGroup isMain st = resume_task data sourceGroup isMain st"
  by (simp add: processTaskIpc_def)

lemma processTaskIpc_cancel:
  "data_type data = Some ''cancel_task'' \<Longrightarrow>
   processTaskIpc e (JsonObject data) sourceGroup isMain st = cancel_task data sourceGroup isMain st"
  by (simp add: processTaskIpc_def)

text \<open>
  C4: a \<^verbatim>\<open>pause_task\<close>, \<^verbatim>\<open>resume_task\<close> or \<^verbatim>\<open>cancel_task\<close> request that carries a
  \<^verbatim>\<open>taskId\<close> always returns normally and leaves the registry alone. The store gets the
  status \<^verbatim>\<open>paused\<close>, the status \<^verbatim>\<open>active\<close>, or loses the record, exactly when a task
  with that id exists and the requester is main or the task's \<^verbatim>\<open>group_folder\<close> is the
  requester's directory; for a missing id and for a foreign task the only change is a
  warning in the log.
\<close>

theorem control_ops:
  assumes tid: "truthy (data_taskId data)"
    and ty: "data_type data = Some ty"
    and op: "ty = ''pause_task'' \<or> ty = ''resume_task'' \<or> ty = ''cancel_task''"
  shows "\<exists>st'. processTaskIpc e (JsonObject data) sourceGroup isMain st = (Normal, st')
           \<and> registeredGroups st' = registeredGroups st
           \<and> (case tasks st (str_of (data_taskId data)) of
                 None \<Rightarrow> tasks st' = tasks st \<and> (\<exists>m. st' = logmsg Warn m st)
               | Some t \<Rightarrow>
                   if isMain \<or> group_folder t = Some sourceGroup then
                     tasks st' =
                       (if ty = ''pause_task''
                          then (tasks st)(str_of (data_taskId data) \<mapsto> t\<lparr>status := ''paused''\<rparr>)
                        else if ty = ''resume_task''
                          then (tasks st)(str_of (data_taskId data) \<mapsto> t\<lparr>status := ''active''\<rparr>)
                        else (tasks st)(str_of (data_taskId data) := None))
                   else tasks st' = tasks st \<and> (\<exists>m. st' = logmsg Warn m st))"
proof -
  consider (pause) "ty = ''pause_task''" | (resume) "ty = ''resume_task''"
    | (cancel) "ty = ''cancel_task''"
    using op by blast
  then show ?thesis
  proof cases
    case pause
    have eq: "processTaskIpc e (JsonObject data) sourceGroup isMain st
        = pause_task data sourceGroup isMain st"
      using ty pause by (simp add: processTaskIpc_pause)
    show ?thesis
      unfolding eq pause_task_result [OF tid] pause
      by (cases "tasks st (str_of (data_taskId data))") auto
  next
    case resume
    have eq: "processTaskIpc e (JsonObject data) sourceGroup isMain st
        = resume_task data sourceGroup isMain st"
      using ty resume by (simp add: processTaskIpc_resume)
    show ?thesis
      unfolding eq resume_task_result [OF tid] resume
      by (cases "tasks st (str_of (data_taskId data))") auto
  next
    case cancel
    have eq: "processTaskIpc e (JsonObject data) sourceGroup isMain st
        = cancel_task data sourceGroup isMain st"
      using ty cancel by (simp add: processTaskIpc_cancel)
    show ?thesis
      unfolding eq cancel_task_result [OF tid] cancel
      by (cases "tasks st (str_of (data_taskId data))") auto
  qed
qed

theorem control_ops_witness:
  "truthy (data_taskId (no_fields\<lparr>data_type := Some ''pause_task'', data_taskId := Some ''t1''\<rparr>))
   \<and> tasks (snd (processTaskIpc example_env
        (JsonObject (no_fields\<lparr>data_type := Some ''pause_task'', data_taskId := Some ''t1''\<rparr>))
        ''alpha'' False example_world)) = tasks example_world
   \<and> map_option status (tasks (snd (processTaskIpc example_env
        (JsonObject (no_fields\<lparr>data_type := Some ''pause_task'', data_taskId := Some ''t1''\<rparr>))
        ''beta'' False example_world)) ''t1'') = Some ''paused''"
  using control_ops [of "no_fields\<lparr>data_type := Some ''pause_task'', data_taskId := Some ''t1''\<rparr>"
      "''pause_task''" example_env "''alpha''" False example_world]
    control_ops [of "no_fields\<lparr>data_type := Some ''pause_task'', data_taskId := Some ''t1''\<rparr>"
      "''pause_task''" example_env "''beta''" False example_world]
  by (auto simp: no_fields_def truthy_def str_of_def example_world_def example_task_def)

section \<open>Scheduling a task\<close>

lemma processTaskIpc_schedule:
  "data_type data = Some ''schedule_task'' \<Longrightarrow>
   processTaskIpc e (JsonObject data) sourceGroup isMain st =
     schedule_task e data sourceGroup isMain st"
  by (simp add: processTaskIpc_def)

lemma schedule_task_authorized:
  assumes "truthy (data_prompt data)" and "truthy (data_schedule_type data)"
    and "truthy (data_schedule_value data)" and "truthy (data_targetJid data)"
    and "map_of (registeredGroups st) (str_of (data_targetJid data)) = Some g"
    and "isMain \<or> folder g = sourceGroup"
  shows "schedule_task e data sourceGroup isMain st =
     (case nextRunOf e (str_of (data_schedule_type data)) (str_of (data_schedule_value data)) of
        Rejected msg \<Rightarrow> (Normal, logmsg Warn msg st)
      | RangeError \<Rightarrow> (Thrown, st)
      | NextRun nextRun \<Rightarrow>
          (Normal,
           logmsg Info ''Task created via IPC''
             (st\<lparr>tasks := (tasks st)(newTaskId e \<mapsto>
                \<lparr>task_id = newTaskId e,
                 group_folder = Some (folder g),
                 chat_jid = str_of (data_targetJid data),
                 prompt = str_of (data_prompt data),
                 schedule_type = str_of (data_schedule_type data),
                 schedule_value = str_of (data_schedule_value data),
                 context_mode = contextModeOf (data_context_mode data),
                 next_run = nextRun,
                 status = ''active'',
                 created_at = now e\<rparr>)\<rparr>)))"
  using assms
  by (auto simp: schedule_task_def createTask_def Let_def getProperty_Own folderOf_def
        split: schedule.splits)


lemma schedule_task_NextRun:
  assumes ty: "data_type data = Some ''schedule_task''"
    and prompt: "truthy (data_prompt data)"
    and stype: "truthy (data_schedule_type data)"
    and svalue: "truthy (data_schedule_value data)"
    and target: "data_targetJid data = Some targetJid" "targetJid \<noteq> []"
    and reg: "map_of (registeredGroups st) targetJid = Some g"
    and auth: "isMain \<or> folder g = sourceGroup"
    and sched: "nextRunOf e (str_of (data_schedule_type data))
                  (str_of (data_schedule_value data)) = NextRun nr"
  shows "\<exists>st' task.
           processTaskIpc e (JsonObject data) sourceGroup isMain st = (Normal, st')
         \<and> tasks st' = (tasks st)(newTaskId e \<mapsto> task)
         \<and> registeredGroups st' = registeredGroups st
         \<and> group_folder task = Some (folder g)
         \<and> chat_jid task = targetJid
         \<and> schedule_type task = str_of (data_schedule_type data)
         \<and> schedule_value task = str_of (data_schedule_value data)
         \<and> status task = ''active''
         \<and> next_run task = nr
         \<and> context_mode task = contextModeOf (data_context_mode data)"
proof -
  have tj: "truthy (data_targetJid data)" "str_of (data_targetJid data) = targetJid"
    using target by (simp_all add: truthy_def str_of_def)
  have reg': "map_of (registeredGroups st) (str_of (data_targetJid data)) = Some g"
    using reg tj by simp
  let ?task = "\<lparr>task_id = newTaskId e,
                 group_folder = Some (folder g),
                 chat_jid = str_of (data_targetJid data),
                 prompt = str_of (data_prompt data),
                 schedule_type = str_of (data_schedule_type data),
                 schedule_value = str_of (data_schedule_value data),
                 context_mode = contextModeOf (data_context_mode data),
                 next_run = nr,
                 status = ''active'',
                 created_at = now e\<rparr>"
  have res: "processTaskIpc e (JsonObject data) sourceGroup isMain st =
      (Normal, logmsg Info ''Task created via IPC''
                 (st\<lparr>tasks := (tasks st)(newTaskId e \<mapsto> ?task)\<rparr>))"
    unfolding processTaskIpc_schedule [OF ty]
      schedule_task_authorized [OF prompt stype svalue tj(1) reg' auth] sched
    by simp
  show ?thesis
    apply (rule exI [of _ "logmsg Info ''Task created via IPC''
                 (st\<lparr>tasks := (tasks st)(newTaskId e \<mapsto> ?task)\<rparr>)"])
    apply (rule exI [of _ ?task])
    using res tj(2) by simp
qed

lemma schedule_task_Rejected:
  assumes ty: "data_type data = Some ''schedule_task''"
    and prompt: "truthy (data_prompt data)"
    and stype: "truthy (data_schedule_type data)"
    and svalue: "truthy (data_schedule_value data)"
    and target: "data_targetJid data = Some targetJid" "targetJid \<noteq> []"
    and reg: "map_of (registeredGroups st) targetJid = Some g"
    and auth: "isMain \<or> folder g = sourceGroup"
    and sched: "nextRunOf e (str_of (data_schedule_type data))
                  (str_of (data_schedule_value data)) = Rejected msg"
  shows "processTaskIpc e (JsonObject data) sourceGroup isMain st = (Normal, logmsg Warn msg st)"
proof -
  have tj: "truthy (data_targetJid data)" "str_of (data_targetJid data) = targetJid"
    using target by (simp_all add: truthy_def str_of_def)
  have reg': "map_of (registeredGroups st) (str_of (data_targetJid data)) = Some g"
    using reg tj by simp
  show ?thesis
    unfolding processTaskIpc_schedule [OF ty]
      schedule_task_authorized [OF prompt stype svalue tj(1) reg' auth] sched
    by simp
qed

lemma schedule_task_RangeError:
  assumes ty: "data_type data = Some ''schedule_task''"
    and prompt: "truthy (data_prompt data)"
    and stype: "truthy (data_schedule_type data)"
    and svalue: "truthy (data_schedule_value data)"
    and target: "data_targetJid data = Some targetJid" "targetJid \<noteq> []"
    and reg: "map_of (registeredGroups st) targetJid = Some g"
    and auth: "isMain \<or> folder g = sourceGroup"
    and sched: "nextRunOf e (str_of (data_schedule_type data))
                  (str_of (data_schedule_value data)) = RangeError"
  shows "processTaskIpc e (JsonObject data) sourceGroup isMain st = (Thrown, st)"
proof -
  have tj: "truthy (data_targetJid data)" "str_of (data_targetJid data) = targetJid"
    using target by (simp_all add: truthy_def str_of_def)
  have reg': "map_of (registeredGroups st) (str_of (data_targetJid data)) = Some g"
    using reg tj by simp
  show ?thesis
    unfolding processTaskIpc_schedule [OF ty]
      schedule_task_authorized [OF prompt stype svalue tj(1) reg' auth] sched
    by simp
qed

lemma contextModeOf_cases:
  "contextModeOf m =
     (case m of
        None \<Rightarrow> ''isolated''
      | Some c \<Rightarrow> if c = ''group'' \<or> c = ''isolated'' then c else ''isolated'')"
  by (simp add: contextModeOf_def str_of_def split: option.splits)

lemma example_lookup:
  "map_of (registeredGroups example_world) ''g1'' = Some (snd (hd example_groups))"
  "folder (snd (hd example_groups)) = ''alpha''"
  by (simp_all add: example_world_def example_groups_def)

lemma schedule_request_fields:
  "data_type (schedule_request sty v j) = Some ''schedule_task''"
  "data_prompt (schedule_request sty v j) = Some ''p''"
  "data_schedule_type (schedule_request sty v j) = Some sty"
  "data_schedule_value (schedule_request sty v j) = Some (js v)"
  "data_targetJid (schedule_request sty v j) = Some j"
  "data_context_mode (schedule_request sty v j) = None"
  by (simp_all add: schedule_request_def no_fields_def)

text \<open>
  C8: an authorized \<^verbatim>\<open>schedule_task\<close> request (all four fields present, the target jid
  registered, the requester main or the owner of the target's folder) whose schedule
  yields a next-run instant creates a Task whose \<^verbatim>\<open>group_folder\<close> is the folder of the
  target's registration, not the requester's directory, whose \<^verbatim>\<open>chat_jid\<close> is the target
  jid, whose status is \<^verbatim>\<open>active\<close>, and whose \<^verbatim>\<open>context_mode\<close> is the payload's when that is
  \<^verbatim>\<open>group\<close> or \<^verbatim>\<open>isolated\<close>, and \<^verbatim>\<open>isolated\<close> when it is absent or anything else.
\<close>

theorem schedule_task_creates:
  assumes ty: "data_type data = Some ''schedule_task''"
    and prompt: "truthy (data_prompt data)"
    and stype: "truthy (data_schedule_type data)"
    and svalue: "truthy (data_schedule_value data)"
    and target: "data_targetJid data = Some targetJid" "targetJid \<noteq> []"
    and reg: "map_of (registeredGroups st) targetJid = Some g"
    and auth: "isMain \<or> folder g = sourceGroup"
    and sched: "nextRunOf e (str_of (data_schedule_type data))
                  (str_of (data_schedule_value data)) = NextRun (Some t)"
  shows "\<exists>st' task.
           processTaskIpc e (JsonObject data) sourceGroup isMain st = (Normal, st')
         \<and> tasks st' = (tasks st)(newTaskId e \<mapsto> task)
         \<and> group_folder task = Some (folder g)
         \<and> chat_jid task = targetJid
         \<and> status task = ''active''
         \<and> next_run task = Some t
         \<and> context_mode task =
             (case data_context_mode data of
                None \<Rightarrow> ''isolated''
              | Some m \<Rightarrow> if m = ''group'' \<or> m = ''isolated'' then m else ''isolated'')"
  using schedule_task_NextRun [OF assms]
  unfolding contextModeOf_cases by blast

theorem schedule_task_creates_witness:
  "nextRunOf example_env ''interval'' (js ''60000'') = NextRun (Some 1700000060000)
   \<and> map_option (\<lambda>t. (group_folder t, chat_jid t, status t, next_run t, context_mode t))
        (tasks (snd (processTaskIpc example_env
           (JsonObject (schedule_request ''interval'' ''60000'' ''g1'')) ''main'' True
           example_world)) (newTaskId example_env))
       = Some (Some ''alpha'', ''g1'', ''active'', Some 1700000060000, ''isolated'')"
proof -
  have sched: "nextRunOf example_env
      (str_of (data_schedule_type (schedule_request ''interval'' ''60000'' ''g1'')))
      (str_of (data_schedule_value (schedule_request ''interval'' ''60000'' ''g1'')))
      = NextRun (Some 1700000060000)"
    by (simp add: schedule_request_fields str_of_def nextRunOf_def parseInt_examples
        validDate_def example_env_def)
  show ?thesis
    using sched
      schedule_task_creates [where data = "schedule_request ''interval'' ''60000'' ''g1''"
        and targetJid = "''g1''" and st = example_world and g = "snd (hd example_groups)"
        and isMain = True and sourceGroup = "''main''" and e = example_env
        and t = 1700000060000]
    by (auto simp: schedule_request_fields truthy_def str_of_def example_lookup)
qed


lemma nextRunOf_once:
  "nextRunOf e ''once'' v =
     (case dateParse e v of None \<Rightarrow> Rejected ''Invalid timestamp'' | Some t \<Rightarrow> NextRun (Some t))"
  by (simp add: nextRunOf_def)

lemma nextRunOf_cron:
  "nextRunOf e ''cron'' v =
     (case cronNext e v of None \<Rightarrow> Rejected ''Invalid cron expression''
      | Some t \<Rightarrow> NextRun (Some t))"
  by (simp add: nextRunOf_def)

lemma nextRunOf_interval:
  "nextRunOf e ''interval'' v =
     (case parseInt v of
        None \<Rightarrow> Rejected ''Invalid interval''
      | Some ms \<Rightarrow>
          if ms \<le> 0 then Rejected ''Invalid interval''
          else if validDate (now e + ms) then NextRun (Some (now e + ms))
          else RangeError)"
  by (simp add: nextRunOf_def)

lemma nextRunOf_other:
  "sty \<noteq> ''cron'' \<Longrightarrow> sty \<noteq> ''interval'' \<Longrightarrow> sty \<noteq> ''once'' \<Longrightarrow>
   nextRunOf e sty v = NextRun None"
  by (simp add: nextRunOf_def)

lemma example_env_fields:
  "now example_env = 1700000000000"
  "dateParse example_env (js ''2020-01-01T00:00:00.000Z'') = Some 1577836800000"
  "dateParse example_env (js ''tomorrow'') = None"
  "cronNext example_env (js ''bogus'') = None"
  "MAIN_GROUP_FOLDER example_env = ''main''"
  "ASSISTANT_NAME example_env = ''Andy''"
  by (simp_all add: example_env_def)

text \<open>
  C6: in an authorized \<^verbatim>\<open>schedule_task\<close> request of type \<^verbatim>\<open>once\<close>, a value that the
  \<^verbatim>\<open>Date\<close> constructor parses yields a Task whose \<^verbatim>\<open>next_run\<close> is that very instant,
  whether or not it lies in the future, and a value it does not parse is rejected with a
  warning and no Task. For type \<^verbatim>\<open>cron\<close>, an expression the cron parser refuses is
  rejected with a warning and no Task.
\<close>

theorem once_and_cron_schedule:
  assumes ty: "data_type data = Some ''schedule_task''"
    and prompt: "truthy (data_prompt data)"
    and stype: "data_schedule_type data = Some sty"
    and svalue: "data_schedule_value data = Some v" "v \<noteq> []"
    and target: "data_targetJid data = Some targetJid" "targetJid \<noteq> []"
    and reg: "map_of (registeredGroups st) targetJid = Some g"
    and auth: "isMain \<or> folder g = sourceGroup"
  shows "(sty = ''once'' \<longrightarrow>
            (case dateParse e v of
               None \<Rightarrow>
                 processTaskIpc e (JsonObject data) sourceGroup isMain st =
                   (Normal, logmsg Warn ''Invalid timestamp'' st)
             | Some t \<Rightarrow>
                 (\<exists>st' task.
                    processTaskIpc e (JsonObject data) sourceGroup isMain st = (Normal, st')
                  \<and> tasks st' = (tasks st)(newTaskId e \<mapsto> task)
                  \<and> next_run task = Some t)))
       \<and> (sty = ''cron'' \<and> cronNext e v = None \<longrightarrow>
            processTaskIpc e (JsonObject data) sourceGroup isMain st =
              (Normal, logmsg Warn ''Invalid cron expression'' st))"
proof (intro conjI impI)
  assume once: "sty = ''once''"
  have st: "truthy (data_schedule_type data)" "str_of (data_schedule_type data) = ''once''"
    and sv: "truthy (data_schedule_value data)" "str_of (data_schedule_value data) = v"
    using stype svalue once by (simp_all add: truthy_def str_of_def)
  show "case dateParse e v of
          None \<Rightarrow>
            processTaskIpc e (JsonObject data) sourceGroup isMain st =
              (Normal, logmsg Warn ''Invalid timestamp'' st)
        | Some t \<Rightarrow>
            (\<exists>st' task.
               processTaskIpc e (JsonObject data) sourceGroup isMain st = (Normal, st')
             \<and> tasks st' = (tasks st)(newTaskId e \<mapsto> task)
             \<and> next_run task = Some t)"
  proof (cases "dateParse e v")
    case None
    then have "nextRunOf e (str_of (data_schedule_type data))
        (str_of (data_schedule_value data)) = Rejected ''Invalid timestamp''"
      using st sv by (simp add: nextRunOf_once)
    from schedule_task_Rejected [OF ty prompt st(1) sv(1) target reg auth this] None
    show ?thesis by simp
  next
    case (Some t)
    then have "nextRunOf e (str_of (data_schedule_type data))
        (str_of (data_schedule_value data)) = NextRun (Some t)"
      using st sv by (simp add: nextRunOf_once)
    from schedule_task_NextRun [OF ty prompt st(1) sv(1) target reg auth this] Some
    show ?thesis by auto
  qed
next
  assume cron: "sty = ''cron'' \<and> cronNext e v = None"
  have st: "truthy (data_schedule_type data)" "str_of (data_schedule_type data) = ''cron''"
    and sv: "truthy (data_schedule_value data)" "str_of (data_schedule_value data) = v"
    using stype svalue cron by (simp_all add: truthy_def str_of_def)
  have "nextRunOf e (str_of (data_schedule_type data))
      (str_of (data_schedule_value data)) = Rejected ''Invalid cron expression''"
    using st sv cron by (simp add: nextRunOf_cron)
  from schedule_task_Rejected [OF ty prompt st(1) sv(1) target reg auth this]
  show "processTaskIpc e (JsonObject data) sourceGroup isMain st =
          (Normal, logmsg Warn ''Invalid cron expression'' st)" .
qed

theorem once_and_cron_schedule_witness:
  "dateParse example_env (js ''2020-01-01T00:00:00.000Z'') = Some 1577836800000
   \<and> 1577836800000 < now example_env
   \<and> map_option next_run
        (tasks (snd (processTaskIpc example_env
           (JsonObject (schedule_request ''once'' ''2020-01-01T00:00:00.000Z'' ''g1''))
           ''alpha'' False example_world)) (newTaskId example_env))
       = Some (Some 1577836800000)
   \<and> tasks (snd (processTaskIpc example_env
        (JsonObject (schedule_request ''once'' ''tomorrow'' ''g1'')) ''alpha'' False
        example_world)) = tasks example_world
   \<and> tasks (snd (processTaskIpc example_env
        (JsonObject (schedule_request ''cron'' ''bogus'' ''g1'')) ''alpha'' False
        example_world)) = tasks example_world"
  using
    once_and_cron_schedule [where data = "schedule_request ''once'' ''2020-01-01T00:00:00.000Z'' ''g1''"
      and sty = "''once''" and v = "js ''2020-01-01T00:00:00.000Z''" and targetJid = "''g1''"
      and st = example_world and g = "snd (hd example_groups)" and isMain = False
      and sourceGroup = "''alpha''" and e = example_env]
    once_and_cron_schedule [where data = "schedule_request ''once'' ''tomorrow'' ''g1''"
      and sty = "''once''" and v = "js ''tomorrow''" and targetJid = "''g1''"
      and st = example_world and g = "snd (hd example_groups)" and isMain = False
      and sourceGroup = "''alpha''" and e = example_env]
    once_and_cron_schedule [where data = "schedule_request ''cron'' ''bogus'' ''g1''"
      and sty = "''cron''" and v = "js ''bogus''" and targetJid = "''g1''"
      and st = example_world and g = "snd (hd example_groups)" and isMain = False
      and sourceGroup = "''alpha''" and e = example_env]
  by (auto simp: schedule_request_fields truthy_def example_lookup example_env_fields)

text \<open>
  C5, as amended: in an authorized \<^verbatim>\<open>schedule_task\<close> request of type \<^verbatim>\<open>interval\<close>, the value
  is read the way \<^verbatim>\<open>parseInt(value, 10)\<close> reads it (leading white space of any kind is
  trimmed, then a sign and the longest run of digits are read; the rest is ignored).
  When no digit is read or the number is not positive, the request is rejected with a
  warning and no Task; otherwise, when now plus the number is a representable date, a
  Task is created whose \<^verbatim>\<open>next_run\<close> is now plus that many milliseconds; beyond the range
  of dates the request throws and creates nothing.
\<close>

theorem interval_schedule:
  assumes ty: "data_type data = Some ''schedule_task''"
    and prompt: "truthy (data_prompt data)"
    and stype: "data_schedule_type data = Some ''interval''"
    and svalue: "data_schedule_value data = Some v" "v \<noteq> []"
    and target: "data_targetJid data = Some targetJid" "targetJid \<noteq> []"
    and reg: "map_of (registeredGroups st) targetJid = Some g"
    and auth: "isMain \<or> folder g = sourceGroup"
    and clock: "0 \<le> now e"
  shows "case parseInt v of
           None \<Rightarrow>
             processTaskIpc e (JsonObject data) sourceGroup isMain st =
               (Normal, logmsg Warn ''Invalid interval'' st)
         | Some ms \<Rightarrow>
             if ms \<le> 0 then
               processTaskIpc e (JsonObject data) sourceGroup isMain st =
                 (Normal, logmsg Warn ''Invalid interval'' st)
             else if validDate (now e + ms) then
               (\<exists>st' task.
                  processTaskIpc e (JsonObject data) sourceGroup isMain st = (Normal, st')
                \<and> tasks st' = (tasks st)(newTaskId e \<mapsto> task)
                \<and> next_run task = Some (now e + ms))
             else processTaskIpc e (JsonObject data) sourceGroup isMain st = (Thrown, st)"
proof -
  have st: "truthy (data_schedule_type data)" "str_of (data_schedule_type data) = ''interval''"
    and sv: "truthy (data_schedule_value data)" "str_of (data_schedule_value data) = v"
    using stype svalue by (simp_all add: truthy_def str_of_def)
  note nr = nextRunOf_interval [of e v]
  show ?thesis
  proof (cases "parseInt v")
    case None
    then have "nextRunOf e (str_of (data_schedule_type data))
        (str_of (data_schedule_value data)) = Rejected ''Invalid interval''"
      using st sv nr by simp
    from schedule_task_Rejected [OF ty prompt st(1) sv(1) target reg auth this] None
    show ?thesis by simp
  next
    case (Some ms)
    consider (nonpos) "ms \<le> 0" | (ok) "0 < ms" "validDate (now e + ms)"
      | (range) "0 < ms" "\<not> validDate (now e + ms)"
      by fastforce
    then show ?thesis
    proof cases
      case nonpos
      then have "nextRunOf e (str_of (data_schedule_type data))
          (str_of (data_schedule_value data)) = Rejected ''Invalid interval''"
        using st sv nr Some by simp
      from schedule_task_Rejected [OF ty prompt st(1) sv(1) target reg auth this] Some nonpos
      show ?thesis by simp
    next
      case ok
      then have "nextRunOf e (str_of (data_schedule_type data))
          (str_of (data_schedule_value data)) = NextRun (Some (now e + ms))"
        using st sv nr Some by simp
      from schedule_task_NextRun [OF ty prompt st(1) sv(1) target reg auth this] Some ok
      show ?thesis by auto
    next
      case range
      then have "nextRunOf e (str_of (data_schedule_type data))
          (str_of (data_schedule_value data)) = RangeError"
        using st sv nr Some by simp
      from schedule_task_RangeError [OF ty prompt st(1) sv(1) target reg auth this] Some range
      show ?thesis by simp
    qed
  qed
qed

theorem interval_schedule_witness:
  "parseInt (js ''60000'') = Some 60000 \<and> parseInt (js ''5abc'') = Some 5
   \<and> parseInt (js ''0'') = Some 0 \<and> parseInt (js ''abc'') = None
   \<and> parseInt (0xA0 # js ''5'') = Some 5
   \<and> map_option next_run
        (tasks (snd (processTaskIpc example_env
           (JsonObject (schedule_request ''interval'' ''60000'' ''g1'')) ''alpha'' False
           example_world)) (newTaskId example_env))
       = Some (Some 1700000060000)
   \<and> tasks (snd (processTaskIpc example_env
        (JsonObject (schedule_request ''interval'' ''0'' ''g1'')) ''alpha'' False
        example_world)) = tasks example_world
   \<and> tasks (snd (processTaskIpc example_env
        (JsonObject (schedule_request ''interval'' ''abc'' ''g1'')) ''alpha'' False
        example_world)) = tasks example_world"
  using
    interval_schedule [where data = "schedule_request ''interval'' ''60000'' ''g1''"
      and v = "js ''60000''" and targetJid = "''g1''"
      and st = example_world and g = "snd (hd example_groups)" and isMain = False
      and sourceGroup = "''alpha''" and e = example_env]
    interval_schedule [where data = "schedule_request ''interval'' ''0'' ''g1''"
      and v = "js ''0''" and targetJid = "''g1''"
      and st = example_world and g = "snd (hd example_groups)" and isMain = False
      and sourceGroup = "''alpha''" and e = example_env]
    interval_schedule [where data = "schedule_request ''interval'' ''abc'' ''g1''"
      and v = "js ''abc''" and targetJid = "''g1''"
      and st = example_world and g = "snd (hd example_groups)" and isMain = False
      and sourceGroup = "''alpha''" and e = example_env]
  by (auto simp: schedule_request_fields truthy_def example_lookup example_env_fields
        parseInt_examples validDate_def)

text \<open>
  C5, as stated, fails: the value \<^verbatim>\<open>5abc\<close> is not numeric, yet the request is accepted
  and a Task due five milliseconds from now is created.
\<close>

theorem interval_nonnumeric_counterexample:
  "\<not> spec_numeric (js ''5abc'')
   \<and> map_option next_run
        (tasks (snd (processTaskIpc example_env
           (JsonObject (schedule_request ''interval'' ''5abc'' ''g1'')) ''alpha'' False
           example_world)) (newTaskId example_env))
       = Some (Some 1700000000005)"
proof -
  have "nextRunOf example_env
      (str_of (data_schedule_type (schedule_request ''interval'' ''5abc'' ''g1'')))
      (str_of (data_schedule_value (schedule_request ''interval'' ''5abc'' ''g1'')))
      = NextRun (Some 1700000000005)"
    by (simp add: schedule_request_fields str_of_def nextRunOf_interval parseInt_examples
        validDate_def example_env_fields)
  from schedule_task_NextRun [where data = "schedule_request ''interval'' ''5abc'' ''g1''"
      and targetJid = "''g1''" and st = example_world and g = "snd (hd example_groups)"
      and isMain = False and sourceGroup = "''alpha''" and e = example_env, OF _ _ _ _ _ _ _ _ this]
  have "map_option next_run
        (tasks (snd (processTaskIpc example_env
           (JsonObject (schedule_request ''interval'' ''5abc'' ''g1'')) ''alpha'' False
           example_world)) (newTaskId example_env))
       = Some (Some 1700000000005)"
    by (auto simp: schedule_request_fields truthy_def example_lookup)
  moreover have "\<not> spec_numeric (js ''5abc'')"
    by (simp add: spec_numeric_def isDigit_def js_def)
  ultimately show ?thesis by simp
qed

text \<open>
  C2: the claim is that every created Task has a next-run instant. The code does not
  keep it: a \<^verbatim>\<open>schedule_type\<close> other than \<^verbatim>\<open>cron\<close>, \<^verbatim>\<open>interval\<close> and \<^verbatim>\<open>once\<close> takes no
  branch of the schedule computation, and an authorized request with such a type creates
  an active Task whose \<^verbatim>\<open>next_run\<close> is null.
\<close>

theorem unknown_schedule_type_null_next_run:
  assumes ty: "data_type data = Some ''schedule_task''"
    and prompt: "truthy (data_prompt data)"
    and stype: "data_schedule_type data = Some sty" "sty \<noteq> []"
    and other: "sty \<noteq> ''cron''" "sty \<noteq> ''interval''" "sty \<noteq> ''once''"
    and svalue: "truthy (data_schedule_value data)"
    and target: "data_targetJid data = Some targetJid" "targetJid \<noteq> []"
    and reg: "map_of (registeredGroups st) targetJid = Some g"
    and auth: "isMain \<or> folder g = sourceGroup"
  shows "\<exists>st' task.
           processTaskIpc e (JsonObject data) sourceGroup isMain st = (Normal, st')
         \<and> tasks st' = (tasks st)(newTaskId e \<mapsto> task)
         \<and> schedule_type task = sty
         \<and> status task = ''active''
         \<and> next_run task = None"
proof -
  have st: "truthy (data_schedule_type data)" "str_of (data_schedule_type data) = sty"
    using stype by (simp_all add: truthy_def str_of_def)
  have "nextRunOf e (str_of (data_schedule_type data))
      (str_of (data_schedule_value data)) = NextRun None"
    using st other by (simp add: nextRunOf_other)
  from schedule_task_NextRun [OF ty prompt st(1) svalue target reg auth this] st(2)
  show ?thesis by auto
qed


theorem unknown_schedule_type_null_next_run_witness:
  "map_option (\<lambda>t. (schedule_type t, status t, next_run t))
     (tasks (snd (processTaskIpc example_env
        (JsonObject (schedule_request ''weekly'' ''monday'' ''g1'')) ''alpha'' False
        example_world)) (newTaskId example_env))
     = Some (''weekly'', ''active'', None)"
  using unknown_schedule_type_null_next_run
      [where data = "schedule_request ''weekly'' ''monday'' ''g1''"
      and sty = "''weekly''" and targetJid = "''g1''"
      and st = example_world and g = "snd (hd example_groups)" and isMain = False
      and sourceGroup = "''alpha''" and e = example_env]
  by (auto simp: schedule_request_fields truthy_def example_lookup)

section \<open>The messages channel\<close>

lemma unlinkSync_fields [simp]:
  "tasks (snd (unlinkSync e p st)) = tasks st"
  "registeredGroups (snd (unlinkSync e p st)) = registeredGroups st"
  "sent (snd (unlinkSync e p st)) = sent st"
  "logged (snd (unlinkSync e p st)) = logged st"
  "fs_trace (snd (unlinkSync e p st)) =
     (if unlinkFails e p then fs_trace st else fs_trace st @ [Unlink p])"
  "fst (unlinkSync e p st) = (if unlinkFails e p then Thrown else Normal)"
  by (simp_all add: unlinkSync_def)

lemma quarantine_fields [simp]:
  "tasks (snd (quarantine e sg ch f st)) = tasks st"
  "registeredGroups (snd (quarantine e sg ch f st)) = registeredGroups st"
  "sent (snd (quarantine e sg ch f st)) = sent st"
  "logged (snd (quarantine e sg ch f st)) = logged st"
  by (simp_all add: quarantine_def mkdirSync_def renameSync_def)


lemma sendMessage_fields [simp]:
  "tasks (snd (sendMessage e j t st)) = tasks st"
  "registeredGroups (snd (sendMessage e j t st)) = registeredGroups st"
  "sent (snd (sendMessage e j t st)) = sent st @ [(j, t)]"
  "logged (snd (sendMessage e j t st)) = logged st"
  "fs_trace (snd (sendMessage e j t st)) = fs_trace st"
  "fst (sendMessage e j t st) = (if sendMessageFails e j t then Thrown else Normal)"
  by (simp_all add: sendMessage_def)

text \<open>An iteration as a function of its \<^verbatim>\<open>try\<close> block.\<close>

lemma processMessageFile_pair:
  "processMessageFile e registered sg m (fname, c) st =
     (if fst (messageBody e registered sg m fname c st) = Normal
      then messageBody e registered sg m fname c st
      else quarantine e sg ''messages'' fname
             (logmsg Error ''Error processing IPC message''
                (snd (messageBody e registered sg m fname c st))))"
  by (simp add: processMessageFile_def split: prod.splits completion.splits)

lemma messageBody_message:
  assumes "data_type data = Some ''message''"
    and "truthy (data_chatJid data)" and "truthy (data_text data)"
  shows "messageBody e registered sourceGroup isMain fname (Some (JsonObject data)) st =
     (if isMain \<or> owns (getProperty registered (str_of (data_chatJid data))) sourceGroup then
        (if sendMessageFails e (str_of (data_chatJid data))
              (ASSISTANT_NAME e @ '': '' @ str_of (data_text data))
         then (Thrown,
               st\<lparr>sent := sent st @ [(str_of (data_chatJid data),
                                        ASSISTANT_NAME e @ '': '' @ str_of (data_text data))]\<rparr>)
         else unlinkSync e [sourceGroup, ''messages'', fname]
                (logmsg Info ''IPC message sent''
                   (st\<lparr>sent := sent st @ [(str_of (data_chatJid data),
                                        ASSISTANT_NAME e @ '': '' @ str_of (data_text data))]\<rparr>)))
      else unlinkSync e [sourceGroup, ''messages'', fname]
             (logmsg Warn ''Unauthorized IPC message attempt blocked'' st))"
  using assms by (simp add: messageBody_def Let_def sendMessage_def)

lemma messageBody_sent:
  assumes "data_type data = Some ''message''"
    and "truthy (data_chatJid data)" and "truthy (data_text data)"
  shows "sent (snd (messageBody e registered sourceGroup isMain fname
                      (Some (JsonObject data)) st)) =
     (if isMain \<or> owns (getProperty registered (str_of (data_chatJid data))) sourceGroup
      then sent st @ [(str_of (data_chatJid data),
                       ASSISTANT_NAME e @ '': '' @ str_of (data_text data))]
      else sent st)"
  by (simp add: messageBody_message [OF assms])

lemma processMessageFile_sent:
  "sent (snd (processMessageFile e registered sg m (fname, c) st)) =
     sent (snd (messageBody e registered sg m fname c st))"
  by (simp add: processMessageFile_pair)

text \<open>
  C7: a messages-channel file that parses to \<^verbatim>\<open>{type: "message", chatJid, text}\<close> with
  both fields present is passed to the send function, with the text prefixed by the
  assistant's name and a colon, exactly when the requester is main or the registration
  of \<^verbatim>\<open>chatJid\<close> has the requester's directory as its folder. So main is never refused;
  any other request is refused with nothing sent: its \<^verbatim>\<open>try\<close> block is the warning
  followed by the unlink of the file, and when the unlink succeeds, the warning and the
  unlink are all that happens.
\<close>

theorem message_dispatch:
  assumes ty: "data_type data = Some ''message''"
    and jid: "data_chatJid data = Some chatJid" "chatJid \<noteq> []"
    and msg: "data_text data = Some body" "body \<noteq> []"
  shows "(if isMain \<or> (\<exists>g. map_of registered chatJid = Some g \<and> folder g = sourceGroup)
          then sent (snd (processMessageFile e registered sourceGroup isMain
                            (fname, Some (JsonObject data)) st))
                 = sent st @ [(chatJid, ASSISTANT_NAME e @ '': '' @ body)]
          else sent (snd (processMessageFile e registered sourceGroup isMain
                            (fname, Some (JsonObject data)) st)) = sent st
             \<and> (\<exists>rest. logged (snd (processMessageFile e registered sourceGroup isMain
                                      (fname, Some (JsonObject data)) st))
                   = logged st @ (Warn, ''Unauthorized IPC message attempt blocked'') # rest)
             \<and> messageBody e registered sourceGroup isMain fname (Some (JsonObject data)) st
                 = unlinkSync e [sourceGroup, ''messages'', fname]
                     (logmsg Warn ''Unauthorized IPC message attempt blocked'' st)
             \<and> (\<not> unlinkFails e [sourceGroup, ''messages'', fname] \<longrightarrow>
                   fst (processMessageFile e registered sourceGroup isMain
                          (fname, Some (JsonObject data)) st) = Normal
                 \<and> logged (snd (processMessageFile e registered sourceGroup isMain
                                   (fname, Some (JsonObject data)) st))
                     = logged st @ [(Warn, ''Unauthorized IPC message attempt blocked'')]
                 \<and> fs_trace (snd (processMessageFile e registered sourceGroup isMain
                                     (fname, Some (JsonObject data)) st))
                     = fs_trace st @ [Unlink [sourceGroup, ''messages'', fname]]))"
proof -
  have t: "truthy (data_chatJid data)" "truthy (data_text data)"
    and s: "str_of (data_chatJid data) = chatJid" "str_of (data_text data) = body"
    using jid msg by (simp_all add: truthy_def str_of_def)
  let ?auth = "isMain \<or> owns (getProperty registered chatJid) sourceGroup"
  have sent: "sent (snd (processMessageFile e registered sourceGroup isMain
                            (fname, Some (JsonObject data)) st)) =
      (if ?auth then sent st @ [(chatJid, ASSISTANT_NAME e @ '': '' @ body)] else sent st)"
    using messageBody_sent [OF ty t, of e registered sourceGroup isMain fname st]
    by (simp add: processMessageFile_sent s)
  have body: "\<not> ?auth \<Longrightarrow>
      messageBody e registered sourceGroup isMain fname (Some (JsonObject data)) st =
        unlinkSync e [sourceGroup, ''messages'', fname]
          (logmsg Warn ''Unauthorized IPC message attempt blocked'' st)"
    using messageBody_message [OF ty t, of e registered sourceGroup isMain fname st]
    by (simp add: s)
  show ?thesis
  proof (cases ?auth)
    case True
    then show ?thesis using sent by (simp add: owns_iff)
  next
    case False
    note b = body [OF False]
    have "\<exists>rest. logged (snd (processMessageFile e registered sourceGroup isMain
                                (fname, Some (JsonObject data)) st))
             = logged st @ (Warn, ''Unauthorized IPC message attempt blocked'') # rest"
      by (simp add: processMessageFile_pair b)
    moreover have "\<not> unlinkFails e [sourceGroup, ''messages'', fname] \<Longrightarrow>
        fst (processMessageFile e registered sourceGroup isMain
               (fname, Some (JsonObject data)) st) = Normal
      \<and> logged (snd (processMessageFile e registered sourceGroup isMain
                        (fname, Some (JsonObject data)) st))
          = logged st @ [(Warn, ''Unauthorized IPC message attempt blocked'')]
      \<and> fs_trace (snd (processMessageFile e registered sourceGroup isMain
                          (fname, Some (JsonObject data)) st))
          = fs_trace st @ [Unlink [sourceGroup, ''messages'', fname]]"
      by (simp add: processMessageFile_pair b)
    ultimately show ?thesis
      using False sent b by (simp add: owns_iff)
  qed
qed

theorem message_dispatch_witness:
  "sent (snd (processMessageFile example_env example_groups ''main'' True
           (''m.json'', Some (JsonObject (message_request ''g2'' ''hi''))) example_world))
     = [(''g2'', ''Andy: hi'')]
   \<and> sent (snd (processMessageFile example_env example_groups ''beta'' False
           (''m.json'', Some (JsonObject (message_request ''g2'' ''hi''))) example_world))
     = [(''g2'', ''Andy: hi'')]
   \<and> sent (snd (processMessageFile example_env example_groups ''alpha'' False
           (''m.json'', Some (JsonObject (message_request ''g2'' ''hi''))) example_world)) = []
   \<and> fs_trace (snd (processMessageFile example_env example_groups ''alpha'' False
           (''m.json'', Some (JsonObject (message_request ''g2'' ''hi''))) example_world))
     = [Unlink [''alpha'', ''messages'', ''m.json'']]"
  using
    message_dispatch [where data = "message_request ''g2'' ''hi''" and chatJid = "''g2''"
      and body = "''hi''" and isMain = True and sourceGroup = "''main''"
      and registered = example_groups and e = example_env and fname = "''m.json''"
      and st = example_world]
    message_dispatch [where data = "message_request ''g2'' ''hi''" and chatJid = "''g2''"
      and body = "''hi''" and isMain = False and sourceGroup = "''beta''"
      and registered = example_groups and e = example_env and fname = "''m.json''"
      and st = example_world]
    message_dispatch [where data = "message_request ''g2'' ''hi''" and chatJid = "''g2''"
      and body = "''hi''" and isMain = False and sourceGroup = "''alpha''"
      and registered = example_groups and e = example_env and fname = "''m.json''"
      and st = example_world]
  by (simp add: message_request_def no_fields_def example_groups_def example_world_def
        example_env_def)

section \<open>Action requests\<close>

lemma apiCall_fields [simp]:
  "tasks (snd (apiCall e r st)) = tasks st"
  "registeredGroups (snd (apiCall e r st)) = registeredGroups st"
  "sent (snd (apiCall e r st)) = sent st"
  "logged (snd (apiCall e r st)) = logged st"
  "fs_trace (snd (apiCall e r st)) = fs_trace st"
  "fst (apiCall e r st) = (if apiFails e r then Thrown else Normal)"
  by (simp_all add: apiCall_def)









text \<open>The \<^verbatim>\<open>try\<close> block and the iteration of a tasks file as functions of \<^verbatim>\<open>processTaskIpc\<close>.\<close>

lemma taskBody_Some:
  "taskBody e sg m fname (Some j) st =
     (if fst (processTaskIpc e j sg m st) = Normal
      then unlinkSync e [sg, ''tasks'', fname] (snd (processTaskIpc e j sg m st))
      else (Thrown, snd (processTaskIpc e j sg m st)))"
  by (simp add: taskBody_def split: prod.splits completion.splits)

lemma processTaskFile_pair:
  "processTaskFile e sg m (fname, c) st =
     (if fst (taskBody e sg m fname c st) = Normal
      then taskBody e sg m fname c st
      else quarantine e sg ''tasks'' fname
             (logmsg Error ''Error processing IPC task'' (snd (taskBody e sg m fname c st))))"
  by (simp add: processTaskFile_def split: prod.splits completion.splits)



section \<open>Disposal of every processed file\<close>




















































section \<open>Identity comes from the directory\<close>

lemma processTaskFile_state:
  "tasks (snd (processTaskFile e sg m (fname, Some j) st)) = tasks (snd (processTaskIpc e j sg m st))"
  "registeredGroups (snd (processTaskFile e sg m (fname, Some j) st))
     = registeredGroups (snd (processTaskIpc e j sg m st))"
  "sent (snd (processTaskFile e sg m (fname, Some j) st)) = sent (snd (processTaskIpc e j sg m st))"
  by (simp_all add: processTaskFile_pair taskBody_Some)

lemma messageBody_state:
  "tasks (snd (messageBody e registered sg m fname c st)) = tasks st"
  "registeredGroups (snd (messageBody e registered sg m fname c st)) = registeredGroups st"
  by (simp_all add: messageBody_def Let_def sendMessage_def split: option.splits json.splits)

lemma processMessageFile_state:
  "tasks (snd (processMessageFile e registered sg m (fname, c) st)) = tasks st"
  "registeredGroups (snd (processMessageFile e registered sg m (fname, c) st))
     = registeredGroups st"
  by (simp_all add: processMessageFile_pair messageBody_state)

lemma processGroup_one_message:
  "processGroup e registered sg \<lparr>messagesDir = Listing [(fname, c)], tasksDir = Missing\<rparr> st =
     (if endsWith fname ''.json''
      then (if fst (processMessageFile e registered sg (sg = MAIN_GROUP_FOLDER e) (fname, c) st)
                 = Normal
            then snd (processMessageFile e registered sg (sg = MAIN_GROUP_FOLDER e) (fname, c) st)
            else logmsg Error ''Error reading IPC messages directory''
                   (snd (processMessageFile e registered sg (sg = MAIN_GROUP_FOLDER e)
                           (fname, c) st)))
      else st)"
  by (simp add: processGroup_def processMessages_def processTasks_def jsonFiles_def
      split: prod.splits completion.splits)

lemma processGroup_one_task:
  "processGroup e registered sg \<lparr>messagesDir = Missing, tasksDir = Listing [(fname, c)]\<rparr> st =
     (if endsWith fname ''.json''
      then (if fst (processTaskFile e sg (sg = MAIN_GROUP_FOLDER e) (fname, c) st) = Normal
            then snd (processTaskFile e sg (sg = MAIN_GROUP_FOLDER e) (fname, c) st)
            else logmsg Error ''Error reading IPC tasks directory''
                   (snd (processTaskFile e sg (sg = MAIN_GROUP_FOLDER e) (fname, c) st)))
      else st)"
  by (simp add: processGroup_def processMessages_def processTasks_def jsonFiles_def
      split: prod.splits completion.splits)

lemma schedule_task_foreign:
  assumes "data_targetJid d = Some j" and "map_of (registeredGroups st) j = Some g"
    and "folder g \<noteq> sg"
  shows "schedule_task e d sg False st = (Normal, st)
       \<or> schedule_task e d sg False st =
            (Normal, logmsg Warn ''Unauthorized schedule_task attempt blocked'' st)"
  using assms
  by (simp add: schedule_task_def Let_def str_of_def getProperty_Own folderOf_def)

lemma processTaskFile_foreign_schedule:
  assumes ty: "data_type d = Some ''schedule_task''"
    and "data_targetJid d = Some j" and "map_of (registeredGroups st) j = Some g"
    and "folder g \<noteq> sg"
  shows "tasks (snd (processTaskFile e sg False (fname, Some (JsonObject d)) st)) = tasks st
       \<and> registeredGroups (snd (processTaskFile e sg False (fname, Some (JsonObject d)) st))
           = registeredGroups st
       \<and> sent (snd (processTaskFile e sg False (fname, Some (JsonObject d)) st)) = sent st"
  using schedule_task_foreign [OF assms(2-4), of e]
  by (auto simp: processTaskFile_state processTaskIpc_schedule [OF ty])

lemma processMessageFile_foreign:
  assumes "data_chatJid d = Some j" and "map_of registered j = Some g"
    and "folder g \<noteq> sg"
  shows "sent (snd (processMessageFile e registered sg False (fname, Some (JsonObject d)) st))
           = sent st"
  using assms
  by (simp add: processMessageFile_sent messageBody_def Let_def getProperty_Own owns_Own
      str_of_def)

lemma processTaskIpc_ignores_identity_fields:
  "processTaskIpc e
     (JsonObject (d\<lparr>data_groupFolder := a, data_jid := b, data_folder := c\<rparr>)) sg False st
   = processTaskIpc e (JsonObject d) sg False st"
  by (simp add: processTaskIpc_def schedule_task_def pause_task_def resume_task_def
      cancel_task_def register_group_def try_catch_def
      processSendGmail_def sendGmailBody_def
      processListCalendarEvents_def listCalendarEventsBody_def
      processGetCalendarEvent_def getCalendarEventBody_def
      processCreateCalendarEvent_def createCalendarEventBody_def
      processUpdateCalendarEvent_def updateCalendarEventBody_def
      processDeleteCalendarEvent_def deleteCalendarEventBody_def apiCall_def
      cong: option.case_cong schedule.case_cong prod.case_cong completion.case_cong if_cong)

lemma processTaskIpc_ignores_groupFolder:
  "processTaskIpc e (JsonObject (d\<lparr>data_groupFolder := a, data_chatJid := b\<rparr>)) sg m st
   = processTaskIpc e (JsonObject d) sg m st"
  by (simp add: processTaskIpc_def schedule_task_def pause_task_def resume_task_def
      cancel_task_def register_group_def try_catch_def
      processSendGmail_def sendGmailBody_def
      processListCalendarEvents_def listCalendarEventsBody_def
      processGetCalendarEvent_def getCalendarEventBody_def
      processCreateCalendarEvent_def createCalendarEventBody_def
      processUpdateCalendarEvent_def updateCalendarEventBody_def
      processDeleteCalendarEvent_def deleteCalendarEventBody_def apiCall_def
      cong: option.case_cong schedule.case_cong prod.case_cong completion.case_cong if_cong)

lemma processTaskFile_ignores_identity_fields:
  "processTaskFile e sg False
     (fname, Some (JsonObject (d\<lparr>data_groupFolder := a, data_jid := b, data_folder := c\<rparr>))) st
   = processTaskFile e sg False (fname, Some (JsonObject d)) st"
  by (simp add: processTaskFile_pair taskBody_Some processTaskIpc_ignores_identity_fields)

lemma processTaskFile_ignores_groupFolder:
  "processTaskFile e sg m
     (fname, Some (JsonObject (d\<lparr>data_groupFolder := a, data_chatJid := b\<rparr>))) st
   = processTaskFile e sg m (fname, Some (JsonObject d)) st"
  by (simp add: processTaskFile_pair taskBody_Some processTaskIpc_ignores_groupFolder)

lemma messageBody_ignores_identity_fields:
  "messageBody e registered sg m fname
     (Some (JsonObject (d\<lparr>data_groupFolder := a, data_jid := b, data_folder := c,
                          data_targetJid := t\<rparr>))) st
   = messageBody e registered sg m fname (Some (JsonObject d)) st"
  by (simp add: messageBody_def)

lemma processMessageFile_ignores_identity_fields:
  "processMessageFile e registered sg m
     (fname, Some (JsonObject (d\<lparr>data_groupFolder := a, data_jid := b, data_folder := c,
                                 data_targetJid := t\<rparr>))) st
   = processMessageFile e registered sg m (fname, Some (JsonObject d)) st"
  by (simp add: processMessageFile_pair messageBody_ignores_identity_fields)

lemma processGroup_message_fields:
  "sent (processGroup e registered sg
           \<lparr>messagesDir = Listing [(fname, c)], tasksDir = Missing\<rparr> st) =
     (if endsWith fname ''.json''
      then sent (snd (processMessageFile e registered sg (sg = MAIN_GROUP_FOLDER e)
                        (fname, c) st))
      else sent st)"
  "tasks (processGroup e registered sg
            \<lparr>messagesDir = Listing [(fname, c)], tasksDir = Missing\<rparr> st) = tasks st"
  "registeredGroups (processGroup e registered sg
            \<lparr>messagesDir = Listing [(fname, c)], tasksDir = Missing\<rparr> st) = registeredGroups st"
  by (simp_all add: processGroup_one_message processMessageFile_state)

lemma processGroup_task_fields:
  "tasks (processGroup e registered sg
            \<lparr>messagesDir = Missing, tasksDir = Listing [(fname, Some j)]\<rparr> st) =
     (if endsWith fname ''.json''
      then tasks (snd (processTaskIpc e j sg (sg = MAIN_GROUP_FOLDER e) st)) else tasks st)"
  "registeredGroups (processGroup e registered sg
            \<lparr>messagesDir = Missing, tasksDir = Listing [(fname, Some j)]\<rparr> st) =
     (if endsWith fname ''.json''
      then registeredGroups (snd (processTaskIpc e j sg (sg = MAIN_GROUP_FOLDER e) st))
      else registeredGroups st)"
  "sent (processGroup e registered sg
            \<lparr>messagesDir = Missing, tasksDir = Listing [(fname, Some j)]\<rparr> st) =
     (if endsWith fname ''.json''
      then sent (snd (processTaskIpc e j sg (sg = MAIN_GROUP_FOLDER e) st)) else sent st)"
  by (simp_all add: processGroup_one_task processTaskFile_state)
text \<open>
  C1: the loop body gives every file of a tenant directory the directory's name as
  \<^verbatim>\<open>sourceGroup\<close> and its equality with \<^verbatim>\<open>MAIN_GROUP_FOLDER\<close> as \<^verbatim>\<open>isMain\<close>, in both
  directions. For a directory that is not the main folder, a message whose \<^verbatim>\<open>chatJid\<close> is
  registered to another folder is not sent, and a \<^verbatim>\<open>schedule_task\<close> whose \<^verbatim>\<open>targetJid\<close> is
  registered to another folder creates no task, whatever else the payload holds. For the
  main folder, a complete message is sent whatever the registration of its \<^verbatim>\<open>chatJid\<close>.
  A complete \<^verbatim>\<open>register_group\<close> request changes the registry exactly when the directory is
  the main folder. The outcome of a tasks file never depends on the payload's
  \<^verbatim>\<open>groupFolder\<close> or \<^verbatim>\<open>chatJid\<close>, nor, outside the main folder, on its \<^verbatim>\<open>jid\<close> or \<^verbatim>\<open>folder\<close>;
  that of a messages file never depends on \<^verbatim>\<open>groupFolder\<close>, \<^verbatim>\<open>jid\<close>, \<^verbatim>\<open>folder\<close> or
  \<^verbatim>\<open>targetJid\<close>.
\<close>

theorem identity_from_directory:
  "processGroup e registered sourceGroup mb st =
     processTasks e sourceGroup (sourceGroup = MAIN_GROUP_FOLDER e) (tasksDir mb)
       (processMessages e registered sourceGroup (sourceGroup = MAIN_GROUP_FOLDER e)
          (messagesDir mb) st)
   \<and> (sourceGroup \<noteq> MAIN_GROUP_FOLDER e \<and> data_chatJid d = Some j
        \<and> map_of registered j = Some g \<and> folder g \<noteq> sourceGroup
      \<longrightarrow> sent (processGroup e registered sourceGroup (oneMessage fname d) st) = sent st
        \<and> tasks (processGroup e registered sourceGroup (oneMessage fname d) st) = tasks st
        \<and> registeredGroups (processGroup e registered sourceGroup (oneMessage fname d) st)
            = registeredGroups st)
   \<and> (sourceGroup \<noteq> MAIN_GROUP_FOLDER e \<and> data_type d = Some ''schedule_task''
        \<and> data_targetJid d = Some j
        \<and> map_of (registeredGroups st) j = Some g \<and> folder g \<noteq> sourceGroup
      \<longrightarrow> tasks (processGroup e registered sourceGroup (oneTask fname d) st) = tasks st
        \<and> sent (processGroup e registered sourceGroup (oneTask fname d) st) = sent st
        \<and> registeredGroups (processGroup e registered sourceGroup (oneTask fname d) st)
            = registeredGroups st)
   \<and> (sourceGroup = MAIN_GROUP_FOLDER e \<and> endsWith fname ''.json''
        \<and> data_type d = Some ''message''
        \<and> data_chatJid d = Some j \<and> j \<noteq> [] \<and> data_text d = Some body \<and> body \<noteq> []
      \<longrightarrow> sent (processGroup e registered sourceGroup (oneMessage fname d) st)
            = sent st @ [(j, ASSISTANT_NAME e @ '': '' @ body)])
   \<and> (endsWith fname ''.json'' \<and> data_type d = Some ''register_group''
        \<and> truthy (data_jid d) \<and> truthy (data_name d)
        \<and> truthy (data_folder d) \<and> truthy (data_trigger d)
      \<longrightarrow> registeredGroups (processGroup e registered sourceGroup (oneTask fname d) st) =
            (if sourceGroup = MAIN_GROUP_FOLDER e
             then upsert (str_of (data_jid d))
                    \<lparr>name = str_of (data_name d),
                     folder = str_of (data_folder d),
                     trigger = str_of (data_trigger d),
                     added_at = now e,
                     containerConfig = data_containerConfig d,
                     requiresTrigger = data_requiresTrigger d\<rparr> (registeredGroups st)
             else registeredGroups st))
   \<and> (sourceGroup \<noteq> MAIN_GROUP_FOLDER e
      \<longrightarrow> processGroup e registered sourceGroup
            (oneTask fname (d\<lparr>data_groupFolder := a, data_jid := b, data_folder := c\<rparr>)) st
          = processGroup e registered sourceGroup (oneTask fname d) st)
   \<and> processGroup e registered sourceGroup
        (oneTask fname (d\<lparr>data_groupFolder := a, data_chatJid := b\<rparr>)) st
      = processGroup e registered sourceGroup (oneTask fname d) st
   \<and> processGroup e registered sourceGroup
        (oneMessage fname
           (d\<lparr>data_groupFolder := a, data_jid := b, data_folder := c, data_targetJid := t\<rparr>)) st
      = processGroup e registered sourceGroup (oneMessage fname d) st"
proof (intro conjI impI)
  show "processGroup e registered sourceGroup mb st =
     processTasks e sourceGroup (sourceGroup = MAIN_GROUP_FOLDER e) (tasksDir mb)
       (processMessages e registered sourceGroup (sourceGroup = MAIN_GROUP_FOLDER e)
          (messagesDir mb) st)"
    by (simp add: processGroup_def Let_def)
next
  assume h: "sourceGroup \<noteq> MAIN_GROUP_FOLDER e \<and> data_chatJid d = Some j
        \<and> map_of registered j = Some g \<and> folder g \<noteq> sourceGroup"
  then have m: "sent (snd (processMessageFile e registered sourceGroup False
                             (fname, Some (JsonObject d)) st)) = sent st"
    using processMessageFile_foreign [of d j registered g sourceGroup e fname st] by blast
  show "sent (processGroup e registered sourceGroup (oneMessage fname d) st) = sent st"
    using m h by (simp add: oneMessage_def processGroup_message_fields)
  show "tasks (processGroup e registered sourceGroup (oneMessage fname d) st) = tasks st"
    by (simp add: oneMessage_def processGroup_message_fields)
  show "registeredGroups (processGroup e registered sourceGroup (oneMessage fname d) st)
      = registeredGroups st"
    by (simp add: oneMessage_def processGroup_message_fields)
next
  assume h: "sourceGroup \<noteq> MAIN_GROUP_FOLDER e \<and> data_type d = Some ''schedule_task''
        \<and> data_targetJid d = Some j
        \<and> map_of (registeredGroups st) j = Some g \<and> folder g \<noteq> sourceGroup"
  then have ty: "data_type d = Some ''schedule_task''" by simp
  have "schedule_task e d sourceGroup False st = (Normal, st)
       \<or> schedule_task e d sourceGroup False st =
            (Normal, logmsg Warn ''Unauthorized schedule_task attempt blocked'' st)"
    using h schedule_task_foreign [of d j st g sourceGroup e] by blast
  then have m: "tasks (snd (processTaskIpc e (JsonObject d) sourceGroup False st)) = tasks st
      \<and> sent (snd (processTaskIpc e (JsonObject d) sourceGroup False st)) = sent st
      \<and> registeredGroups (snd (processTaskIpc e (JsonObject d) sourceGroup False st))
          = registeredGroups st"
    by (auto simp: processTaskIpc_schedule [OF ty])
  show "tasks (processGroup e registered sourceGroup (oneTask fname d) st) = tasks st"
    using m h by (simp add: oneTask_def processGroup_task_fields)
  show "sent (processGroup e registered sourceGroup (oneTask fname d) st) = sent st"
    using m h by (simp add: oneTask_def processGroup_task_fields)
  show "registeredGroups (processGroup e registered sourceGroup (oneTask fname d) st)
      = registeredGroups st"
    using m h by (simp add: oneTask_def processGroup_task_fields)
next
  assume h: "sourceGroup = MAIN_GROUP_FOLDER e \<and> endsWith fname ''.json''
        \<and> data_type d = Some ''message''
        \<and> data_chatJid d = Some j \<and> j \<noteq> [] \<and> data_text d = Some body \<and> body \<noteq> []"
  then have ty: "data_type d = Some ''message''"
    and t: "truthy (data_chatJid d)" "truthy (data_text d)"
    and s: "str_of (data_chatJid d) = j" "str_of (data_text d) = body"
    by (simp_all add: truthy_def str_of_def)
  have "sent (snd (processMessageFile e registered sourceGroup True
                     (fname, Some (JsonObject d)) st))
      = sent st @ [(j, ASSISTANT_NAME e @ '': '' @ body)]"
    using messageBody_sent [OF ty t, of e registered sourceGroup True fname st]
    by (simp add: processMessageFile_sent s)
  then show "sent (processGroup e registered sourceGroup (oneMessage fname d) st)
      = sent st @ [(j, ASSISTANT_NAME e @ '': '' @ body)]"
    using h by (simp add: oneMessage_def processGroup_message_fields)
next
  assume h: "endsWith fname ''.json'' \<and> data_type d = Some ''register_group''
        \<and> truthy (data_jid d) \<and> truthy (data_name d)
        \<and> truthy (data_folder d) \<and> truthy (data_trigger d)"
  then have ty: "data_type d = Some ''register_group''" by simp
  show "registeredGroups (processGroup e registered sourceGroup (oneTask fname d) st) =
            (if sourceGroup = MAIN_GROUP_FOLDER e
             then upsert (str_of (data_jid d))
                    \<lparr>name = str_of (data_name d),
                     folder = str_of (data_folder d),
                     trigger = str_of (data_trigger d),
                     added_at = now e,
                     containerConfig = data_containerConfig d,
                     requiresTrigger = data_requiresTrigger d\<rparr> (registeredGroups st)
             else registeredGroups st)"
    using h
    by (simp add: oneTask_def processGroup_task_fields processTaskIpc_register [OF ty]
        register_group_def registerGroup_def)
next
  assume "sourceGroup \<noteq> MAIN_GROUP_FOLDER e"
  then show "processGroup e registered sourceGroup
            (oneTask fname (d\<lparr>data_groupFolder := a, data_jid := b, data_folder := c\<rparr>)) st
          = processGroup e registered sourceGroup (oneTask fname d) st"
    by (simp add: oneTask_def processGroup_one_task processTaskFile_ignores_identity_fields)
next
  show "processGroup e registered sourceGroup
        (oneTask fname (d\<lparr>data_groupFolder := a, data_chatJid := b\<rparr>)) st
      = processGroup e registered sourceGroup (oneTask fname d) st"
    by (simp add: oneTask_def processGroup_one_task processTaskFile_ignores_groupFolder)
next
  show "processGroup e registered sourceGroup
        (oneMessage fname
           (d\<lparr>data_groupFolder := a, data_jid := b, data_folder := c, data_targetJid := t\<rparr>)) st
      = processGroup e registered sourceGroup (oneMessage fname d) st"
    by (simp add: oneMessage_def processGroup_one_message
        processMessageFile_ignores_identity_fields)
qed

theorem identity_from_directory_witness:
  "sent (processGroup example_env example_groups ''alpha''
          (oneMessage ''m.json''
             ((message_request ''g2'' ''hi'')\<lparr>data_groupFolder := Some ''beta''\<rparr>))
          example_world) = []
   \<and> tasks (processGroup example_env example_groups ''alpha''
          (oneTask ''t.json''
             ((schedule_request ''interval'' ''60000'' ''g2'')\<lparr>data_groupFolder := Some ''main''\<rparr>))
          example_world) = tasks example_world
   \<and> sent (processGroup example_env example_groups ''main''
          (oneMessage ''m.json'' (message_request ''g2'' ''hi'')) example_world)
       = [(''g2'', ''Andy: hi'')]
   \<and> registeredGroups (processGroup example_env example_groups ''main''
          (oneTask ''r.json'' (register_request ''g3'' ''gamma'')) example_world)
       = example_groups @
           [(''g3'', \<lparr>name = ''Gamma'', folder = ''gamma'', trigger = ''@Andy'',
                     added_at = 1700000000000, containerConfig = None,
                     requiresTrigger = None\<rparr>)]
   \<and> registeredGroups (processGroup example_env example_groups ''alpha''
          (oneTask ''r.json'' (register_request ''g3'' ''gamma'')) example_world)
       = example_groups
   \<and> processGroup example_env example_groups ''alpha''
        (oneTask ''r.json''
           ((register_request ''g3'' ''gamma'')
              \<lparr>data_groupFolder := Some ''main'', data_jid := Some ''g1'',
               data_folder := Some ''main''\<rparr>)) example_world
       = processGroup example_env example_groups ''alpha''
           (oneTask ''r.json'' (register_request ''g3'' ''gamma'')) example_world"
proof (intro conjI)
  show "sent (processGroup example_env example_groups ''alpha''
          (oneMessage ''m.json''
             ((message_request ''g2'' ''hi'')\<lparr>data_groupFolder := Some ''beta''\<rparr>))
          example_world) = []"
    using identity_from_directory [where e = example_env and registered = example_groups
      and sourceGroup = "''alpha''" and mb = "oneMessage ''m.json'' no_fields" and st = example_world
      and d = "(message_request ''g2'' ''hi'')\<lparr>data_groupFolder := Some ''beta''\<rparr>"
      and j = "''g2''" and g = "\<lparr>name = ''Beta'', folder = ''beta'', trigger = ''@Andy'', added_at = 0,
               containerConfig = None, requiresTrigger = None\<rparr>"
      and fname = "''m.json''" and body = "''hi''"
      and a = "None" and b = "None" and c = "None" and t = "None",
        THEN conjunct2, THEN conjunct1]
    by (simp add: message_request_def no_fields_def example_groups_def example_world_def
        example_env_def)
  show "tasks (processGroup example_env example_groups ''alpha''
          (oneTask ''t.json''
             ((schedule_request ''interval'' ''60000'' ''g2'')\<lparr>data_groupFolder := Some ''main''\<rparr>))
          example_world) = tasks example_world"
    using identity_from_directory [where e = example_env and registered = example_groups
      and sourceGroup = "''alpha''" and mb = "oneMessage ''m.json'' no_fields" and st = example_world
      and d = "(schedule_request ''interval'' ''60000'' ''g2'')\<lparr>data_groupFolder := Some ''main''\<rparr>"
      and j = "''g2''" and g = "\<lparr>name = ''Beta'', folder = ''beta'', trigger = ''@Andy'', added_at = 0,
               containerConfig = None, requiresTrigger = None\<rparr>"
      and fname = "''t.json''" and body = "''hi''"
      and a = "None" and b = "None" and c = "None" and t = "None",
        THEN conjunct2, THEN conjunct2, THEN conjunct1]
    by (simp add: schedule_request_def no_fields_def example_groups_def example_world_def
        example_env_def)
  show "sent (processGroup example_env example_groups ''main''
          (oneMessage ''m.json'' (message_request ''g2'' ''hi'')) example_world)
       = [(''g2'', ''Andy: hi'')]"
    using identity_from_directory [where e = example_env and registered = example_groups
      and sourceGroup = "''main''" and mb = "oneMessage ''m.json'' no_fields" and st = example_world
      and d = "message_request ''g2'' ''hi''"
      and j = "''g2''" and g = "\<lparr>name = ''Beta'', folder = ''beta'', trigger = ''@Andy'', added_at = 0,
               containerConfig = None, requiresTrigger = None\<rparr>"
      and fname = "''m.json''" and body = "''hi''"
      and a = "None" and b = "None" and c = "None" and t = "None",
        THEN conjunct2, THEN conjunct2, THEN conjunct2, THEN conjunct1]
    by (simp add: message_request_def no_fields_def example_world_def example_env_def
        endsWith_def)
  show "registeredGroups (processGroup example_env example_groups ''main''
          (oneTask ''r.json'' (register_request ''g3'' ''gamma'')) example_world)
       = example_groups @
           [(''g3'', \<lparr>name = ''Gamma'', folder = ''gamma'', trigger = ''@Andy'',
                     added_at = 1700000000000, containerConfig = None,
                     requiresTrigger = None\<rparr>)]"
    using identity_from_directory [where e = example_env and registered = example_groups
      and sourceGroup = "''main''" and mb = "oneMessage ''m.json'' no_fields" and st = example_world
      and d = "register_request ''g3'' ''gamma''"
      and j = "''g3''" and g = "\<lparr>name = ''Beta'', folder = ''beta'', trigger = ''@Andy'', added_at = 0,
               containerConfig = None, requiresTrigger = None\<rparr>"
      and fname = "''r.json''" and body = "''hi''"
      and a = "None" and b = "None" and c = "None" and t = "None",
        THEN conjunct2, THEN conjunct2, THEN conjunct2, THEN conjunct2, THEN conjunct1]
    by (simp add: register_request_def no_fields_def example_world_def example_env_def
        example_groups_def endsWith_def truthy_def str_of_def)
  show "registeredGroups (processGroup example_env example_groups ''alpha''
          (oneTask ''r.json'' (register_request ''g3'' ''gamma'')) example_world)
       = example_groups"
    using identity_from_directory [where e = example_env and registered = example_groups
      and sourceGroup = "''alpha''" and mb = "oneMessage ''m.json'' no_fields" and st = example_world
      and d = "register_request ''g3'' ''gamma''"
      and j = "''g3''" and g = "\<lparr>name = ''Beta'', folder = ''beta'', trigger = ''@Andy'', added_at = 0,
               containerConfig = None, requiresTrigger = None\<rparr>"
      and fname = "''r.json''" and body = "''hi''"
      and a = "None" and b = "None" and c = "None" and t = "None",
        THEN conjunct2, THEN conjunct2, THEN conjunct2, THEN conjunct2, THEN conjunct1]
    by (simp add: register_request_def no_fields_def example_world_def example_env_def
        example_groups_def endsWith_def truthy_def str_of_def)
  show "processGroup example_env example_groups ''alpha''
        (oneTask ''r.json''
           ((register_request ''g3'' ''gamma'')
              \<lparr>data_groupFolder := Some ''main'', data_jid := Some ''g1'',
               data_folder := Some ''main''\<rparr>)) example_world
       = processGroup example_env example_groups ''alpha''
           (oneTask ''r.json'' (register_request ''g3'' ''gamma'')) example_world"
    using identity_from_directory [where e = example_env and registered = example_groups
      and sourceGroup = "''alpha''" and mb = "oneMessage ''m.json'' no_fields" and st = example_world
      and d = "register_request ''g3'' ''gamma''"
      and j = "''g3''" and g = "\<lparr>name = ''Beta'', folder = ''beta'', trigger = ''@Andy'', added_at = 0,
               containerConfig = None, requiresTrigger = None\<rparr>"
      and fname = "''r.json''" and body = "''hi''"
      and a = "Some ''main''" and b = "Some ''g1''" and c = "Some ''main''" and t = "None",
        THEN conjunct2, THEN conjunct2, THEN conjunct2, THEN conjunct2, THEN conjunct2, THEN conjunct1]
    by (simp add: example_env_def)
qed

end
